theory Spec2Isabelle
  imports Complex_Main "HOL-Library.AList"
begin

section \<open>The monitoring script \<^verbatim>\<open>appfinal.py\<close>\<close>

text \<open>
  The script runs top to bottom once per page render: it connects to the time-series
  store, sends one query, shows the readings, their statistics, the anomalous rows and a
  linear-regression prediction per variable.

  Scope of the model.
  \<^item> Readings are numbers: a float64 reading is the real number that it denotes. NaN and
    infinite readings are outside the model.
  \<^item> The anomaly flags of lines 91 to 95 are the one place where the script compares
    numbers that it has computed. Their float64 arithmetic is a parameter of the model
    (\<open>aritmetica\<close>), so that what is proved for every arithmetic holds whatever the
    rounding; \<open>exacta\<close> is the arithmetic without rounding, on which concrete runs are
    evaluated.
  \<^item> The numbers that are only displayed (the statistics of lines 80 to 82, the
    predictions of lines 122 to 124) are computed without rounding. A statistic is a
    \<^typ>\<open>real option\<close> and \<open>None\<close> is NaN (the mean of no rows, the standard deviation of
    fewer than two rows).
  \<^item> pandas, scikit-learn, streamlit and the database client are libraries, not code of
    the script. Their calls are modelled by what they are documented to compute
    (\<open>Series.mean\<close>, \<open>Series.std\<close> with one degree of freedom removed,
    \<open>LinearRegression\<close> as the least-squares line); the store and the client constructor
    are parameters of the run.
  \<^item> What the page shows is the list of streamlit calls, in order. Message texts are kept
    in ASCII: the emoji in front of a message and the accents are left out. Number
    formatting (\<open>:.2f\<close>) is not modelled: an event carries the number itself.
\<close>

subsection \<open>Dataframes\<close>

type_synonym timestamp = "nat \<times> nat \<times> nat"  \<comment> \<open>year, month, day\<close>

datatype cell = Num real | Flag bool | Time timestamp | Text string

datatype column = Nums "real list" | Flags "bool list" | Times "timestamp list" | Texts "string list"

text \<open>A dataframe: the length of its index and its named columns, in order.\<close>

record dataframe =
  index_len :: nat
  cols :: "(string \<times> column) list"

datatype excepcion =
    KeyError string
  | TypeError string
  | ValueError string
  | NameError string
  | IndexError
  | Otra string  \<comment> \<open>an exception of a library, with its message\<close>

fun str_exc :: "excepcion \<Rightarrow> string" where
  "str_exc (KeyError k) = k"
| "str_exc (TypeError m) = m"
| "str_exc (ValueError m) = m"
| "str_exc (NameError n) = ''name '' @ [CHR 0x27] @ n @ [CHR 0x27] @ '' is not defined''"
| "str_exc IndexError = ''index out of bounds''"
| "str_exc (Otra m) = m"

fun celdas :: "column \<Rightarrow> cell list" where
  "celdas (Nums xs) = map Num xs"
| "celdas (Flags bs) = map Flag bs"
| "celdas (Times ts) = map Time ts"
| "celdas (Texts ss) = map Text ss"

text \<open>
  \<open>df[var]\<close> for a variable: the column of numbers. A missing column raises KeyError.
  A variable column that is not numeric is outside the model and is reported as a
  TypeError (what pandas raises for the mean of a text column).
\<close>

definition getcol :: "dataframe \<Rightarrow> string \<Rightarrow> excepcion + real list" where
  "getcol df var =
     (case map_of (cols df) var of
        None \<Rightarrow> Inl (KeyError var)
      | Some (Nums xs) \<Rightarrow> Inr xs
      | Some _ \<Rightarrow> Inl (TypeError var))"

text \<open>\<open>df[name] = column\<close>: replaces the column in place, or appends a new last column.\<close>

definition setcol :: "dataframe \<Rightarrow> string \<Rightarrow> column \<Rightarrow> dataframe" where
  "setcol df name c = df\<lparr>cols := AList.update name c (cols df)\<rparr>"

text \<open>\<open>row[name]\<close> for row number \<open>i\<close> of the dataframe.\<close>

definition row_get :: "dataframe \<Rightarrow> nat \<Rightarrow> string \<Rightarrow> excepcion + cell" where
  "row_get df i name =
     (case map_of (cols df) name of
        None \<Rightarrow> Inl (KeyError name)
      | Some c \<Rightarrow> (if i < length (celdas c) then Inr (celdas c ! i) else Inl IndexError))"

text \<open>\<open>df.rename(columns={old: new}, inplace=True)\<close>; a missing \<open>old\<close> is ignored.\<close>

definition rename :: "string \<Rightarrow> string \<Rightarrow> dataframe \<Rightarrow> dataframe" where
  "rename old new df = df\<lparr>cols := map (\<lambda>(k, c). (if k = old then new else k, c)) (cols df)\<rparr>"

subsection \<open>Statistics of a column\<close>

type_synonym pyfloat = "real option"  \<comment> \<open>\<open>None\<close> is NaN\<close>

definition mean :: "real list \<Rightarrow> pyfloat" where
  "mean xs = (if xs = [] then None else Some (sum_list xs / real (length xs)))"

text \<open>\<open>Series.std()\<close>: the sample standard deviation, dividing by \<open>n - 1\<close>.\<close>

definition var_muestral :: "real list \<Rightarrow> pyfloat" where
  "var_muestral xs =
     (if length xs < 2 then None
      else let m = sum_list xs / real (length xs)
           in Some (sum_list (map (\<lambda>x. (x - m)\<^sup>2) xs) / real (length xs - 1)))"

definition std :: "real list \<Rightarrow> pyfloat" where
  "std xs = map_option sqrt (var_muestral xs)"

definition minimo :: "real list \<Rightarrow> pyfloat" where
  "minimo xs = (case xs of [] \<Rightarrow> None | x # ys \<Rightarrow> Some (fold min ys x))"

definition maximo :: "real list \<Rightarrow> pyfloat" where
  "maximo xs = (case xs of [] \<Rightarrow> None | x # ys \<Rightarrow> Some (fold max ys x))"

subsection \<open>The float arithmetic of the anomaly bounds\<close>

text \<open>
  Lines 91 to 95 are the one place where the script compares numbers that it has
  computed, so there rounding decides what the page shows. The five float64 operations
  of these lines are therefore parameters of the model: whatever the machine arithmetic
  returns for the mean, the standard deviation, the product and the two bounds. A float64
  value is NaN, an infinity or a number; the comparisons of line 95 are exact, and false
  against NaN.
\<close>

datatype float64 = Nan | MenosInf | Finito real | MasInf

record aritmetica =
  ar_mean :: "real list \<Rightarrow> float64"  \<comment> \<open>\<open>Series.mean()\<close>\<close>
  ar_std :: "real list \<Rightarrow> float64"  \<comment> \<open>\<open>Series.std()\<close>\<close>
  ar_mul :: "float64 \<Rightarrow> float64 \<Rightarrow> float64"
  ar_sub :: "float64 \<Rightarrow> float64 \<Rightarrow> float64"
  ar_add :: "float64 \<Rightarrow> float64 \<Rightarrow> float64"

text \<open>\<open>v < b\<close> and \<open>v > b\<close> for a reading \<open>v\<close> and a computed bound \<open>b\<close>.\<close>

fun menor :: "real \<Rightarrow> float64 \<Rightarrow> bool" where
  "menor v (Finito b) = (v < b)"
| "menor v MasInf = True"
| "menor v MenosInf = False"
| "menor v Nan = False"

fun mayor :: "real \<Rightarrow> float64 \<Rightarrow> bool" where
  "mayor v (Finito b) = (v > b)"
| "mayor v MenosInf = True"
| "mayor v MasInf = False"
| "mayor v Nan = False"

text \<open>
  The arithmetic without rounding, used to run the script on concrete readings: the
  exact mean and sample deviation, and exact sums and products of numbers. Its results
  are numbers or NaN, so it never meets an infinity; an operand that is not a number
  gives NaN.
\<close>

fun de_pyfloat :: "pyfloat \<Rightarrow> float64" where
  "de_pyfloat None = Nan"
| "de_pyfloat (Some x) = Finito x"

fun f_add :: "float64 \<Rightarrow> float64 \<Rightarrow> float64" where
  "f_add (Finito a) (Finito b) = Finito (a + b)"
| "f_add _ _ = Nan"

fun f_sub :: "float64 \<Rightarrow> float64 \<Rightarrow> float64" where
  "f_sub (Finito a) (Finito b) = Finito (a - b)"
| "f_sub _ _ = Nan"

fun f_mul :: "float64 \<Rightarrow> float64 \<Rightarrow> float64" where
  "f_mul (Finito a) (Finito b) = Finito (a * b)"
| "f_mul _ _ = Nan"

definition exacta :: aritmetica where
  "exacta =
     \<lparr>ar_mean = (\<lambda>xs. de_pyfloat (mean xs)),
      ar_std = (\<lambda>xs. de_pyfloat (std xs)),
      ar_mul = f_mul, ar_sub = f_sub, ar_add = f_add\<rparr>"

subsection \<open>Anomaly detection (lines 89 to 111)\<close>

definition variables :: "string list" where
  "variables = [''temperatura'', ''humedad'', ''vibracion'', ''corriente'', ''voltaje'']"

text \<open>The name of the flag column of a variable; \<open>CHR 0xF3\<close> is the accented o.\<close>

definition anomalo_name :: "string \<Rightarrow> string" where
  "anomalo_name var = ''An'' @ [CHR 0xF3] @ ''malo '' @ var"

text \<open>Line 91 to 95: the flags of one column, in the arithmetic \<open>ar\<close>.\<close>

definition anomalo :: "aritmetica \<Rightarrow> real list \<Rightarrow> bool list" where
  "anomalo ar xs =
     (let media = ar_mean ar xs;
          std = ar_std ar xs;
          lim_inf = ar_sub ar media (ar_mul ar (Finito 2) std);
          lim_sup = ar_add ar media (ar_mul ar (Finito 2) std)
      in map (\<lambda>v. menor v lim_inf \<or> mayor v lim_sup) xs)"

text \<open>The two bounds of lines 93 and 94 on their own.\<close>

definition limites :: "aritmetica \<Rightarrow> real list \<Rightarrow> float64 \<times> float64" where
  "limites ar xs =
     (let media = ar_mean ar xs;
          std = ar_std ar xs
      in (ar_sub ar media (ar_mul ar (Finito 2) std),
          ar_add ar media (ar_mul ar (Finito 2) std)))"

record anomalia =
  Fecha :: cell
  Variable :: string
  Valor :: cell
  Descripcion :: string

text \<open>Line 98 to 105: one report entry per flagged row, in row order.\<close>

fun registrar :: "dataframe \<Rightarrow> string \<Rightarrow> nat list \<Rightarrow> excepcion + anomalia list" where
  "registrar df var [] = Inr []"
| "registrar df var (i # is) =
     (case row_get df i ''Tiempo'' of
        Inl e \<Rightarrow> Inl e
      | Inr fecha \<Rightarrow>
          (case row_get df i var of
             Inl e \<Rightarrow> Inl e
           | Inr valor \<Rightarrow>
               (case registrar df var is of
                  Inl e \<Rightarrow> Inl e
                | Inr rest \<Rightarrow>
                    Inr (\<lparr>Fecha = fecha, Variable = var, Valor = valor,
                          Descripcion = ''Valor fuera de rango normal''\<rparr> # rest))))"

definition filas_anom :: "bool list \<Rightarrow> nat list" where
  "filas_anom flags = filter (\<lambda>i. flags ! i) [0..<length flags]"

text \<open>The loop of line 90 over the variables, with the dataframe and the report threaded.\<close>

fun deteccion :: "aritmetica \<Rightarrow> dataframe \<Rightarrow> string list \<Rightarrow> anomalia list \<Rightarrow> excepcion + (dataframe \<times> anomalia list)" where
  "deteccion ar df [] anomalias = Inr (df, anomalias)"
| "deteccion ar df (var # vars) anomalias =
     (case getcol df var of
        Inl e \<Rightarrow> Inl e
      | Inr xs \<Rightarrow>
          (let df1 = setcol df (anomalo_name var) (Flags (anomalo ar xs))
           in case registrar df1 var (filas_anom (anomalo ar xs)) of
                Inl e \<Rightarrow> Inl e
              | Inr nuevas \<Rightarrow> deteccion ar df1 vars (anomalias @ nuevas)))"

subsection \<open>Linear regression (lines 118 to 125)\<close>

text \<open>
  \<open>LinearRegression().fit(X, y)\<close> with one feature: the least-squares line, as
  (coefficient, intercept). No sample, or \<open>X\<close> and \<open>y\<close> of different lengths, raise
  ValueError. When all the feature values coincide the minimum-norm solution has
  coefficient 0.
\<close>

definition fit :: "real list \<Rightarrow> real list \<Rightarrow> excepcion + (real \<times> real)" where
  "fit X y =
     (if length X \<noteq> length y then Inl (ValueError ''inconsistent numbers of samples'')
      else if X = [] then Inl (ValueError ''Found array with 0 sample(s)'')
      else let n = real (length X);
               xm = sum_list X / n;
               ym = sum_list y / n;
               sxx = sum_list (map (\<lambda>x. (x - xm)\<^sup>2) X);
               sxy = sum_list (map (\<lambda>(x, v). (x - xm) * (v - ym)) (zip X y));
               coef = (if sxx = 0 then 0 else sxy / sxx)
           in Inr (coef, ym - coef * xm))"

definition predict :: "real \<times> real \<Rightarrow> real \<Rightarrow> real" where
  "predict modelo x = snd modelo + fst modelo * x"

text \<open>One iteration of the loop of line 119.\<close>

definition predecir :: "dataframe \<Rightarrow> string \<Rightarrow> excepcion + real" where
  "predecir df var =
     (let X = map real [0..<index_len df]
      in case getcol df var of
           Inl e \<Rightarrow> Inl e
         | Inr y \<Rightarrow>
             (case fit X y of
                Inl e \<Rightarrow> Inl e
              | Inr modelo \<Rightarrow> Inr (predict modelo (real (index_len df + 1)))))"

fun prediccion :: "dataframe \<Rightarrow> string list \<Rightarrow> excepcion + (string \<times> real) list" where
  "prediccion df [] = Inr []"
| "prediccion df (var # vars) =
     (case predecir df var of
        Inl e \<Rightarrow> Inl e
      | Inr futuro \<Rightarrow>
          (case prediccion df vars of
             Inl e \<Rightarrow> Inl e
           | Inr rest \<Rightarrow> Inr ((var, futuro) # rest)))"

subsection \<open>Summary statistics (lines 77 to 83)\<close>

datatype evento =
    St_title string
  | St_write string
  | St_success string
  | St_error string
  | St_warning string
  | St_subheader string
  | St_dataframe dataframe
  | St_metric string pyfloat pyfloat pyfloat  \<comment> \<open>label, mean, minimum, maximum\<close>
  | St_table "anomalia list"
  | St_write_pred string real  \<comment> \<open>line 129: variable and predicted value\<close>
  | St_markdown string
  | St_caption string

definition upper_char :: "char \<Rightarrow> char" where
  "upper_char c =
     (let n = (of_char c :: nat) in if 97 \<le> n \<and> n \<le> 122 then char_of (n - 32) else c)"

definition lower_char :: "char \<Rightarrow> char" where
  "lower_char c =
     (let n = (of_char c :: nat) in if 65 \<le> n \<and> n \<le> 90 then char_of (n + 32) else c)"

text \<open>\<open>str.capitalize()\<close> on ASCII text.\<close>

fun capitalize :: "string \<Rightarrow> string" where
  "capitalize [] = []"
| "capitalize (c # cs) = upper_char c # map lower_char cs"

text \<open>
  The loop of line 79. A metric already shown stays on the page when a later variable
  raises, so the events come with the exception, if any.
\<close>

fun estadisticas :: "dataframe \<Rightarrow> string list \<Rightarrow> evento list \<times> excepcion option" where
  "estadisticas df [] = ([], None)"
| "estadisticas df (var # vars) =
     (case getcol df var of
        Inl e \<Rightarrow> ([], Some e)
      | Inr xs \<Rightarrow>
          (let prom = mean xs; minimo = minimo xs; maximo = maximo xs;
               (evs, r) = estadisticas df vars
           in (St_metric (capitalize var) prom minimo maximo # evs, r)))"

subsection \<open>The page below the query (lines 68 to 135)\<close>

text \<open>The text of line 12 to 16 and the caption of line 135 (its dash written \<open>-\<close>).\<close>

definition descripcion :: string where
  "descripcion =
     [CHR 0x0A] @ ''Aplicacion de monitoreo inteligente que obtiene datos desde InfluxDB, '' @
     [CHR 0x0A] @ ''analiza promedios, valores extremos, detecta anomalias y predice '' @
     [CHR 0x0A] @ ''tendencias futuras en variables industriales.'' @ [CHR 0x0A]"

definition pie :: string where
  "pie = ''Desarrollado por Alejandro Giraldo - Sistema de monitoreo conectado a InfluxDB con analisis predictivo.''"

datatype terminacion =
    Completo  \<comment> \<open>the script ran to its last line\<close>
  | Detenido  \<comment> \<open>\<open>st.stop()\<close>\<close>
  | Excepcion excepcion  \<comment> \<open>an exception that nothing caught\<close>

definition pagina :: "aritmetica \<Rightarrow> dataframe \<Rightarrow> evento list \<times> terminacion" where
  "pagina ar df0 =
     (let df = rename ''_time'' ''Tiempo'' df0;
          ev1 = [St_subheader ''Datos obtenidos'', St_dataframe df,
                 St_subheader ''Estadisticas Generales'']
      in case estadisticas df variables of
           (ms, Some e) \<Rightarrow> (ev1 @ ms, Excepcion e)
         | (ms, None) \<Rightarrow>
             (let ev2 = ev1 @ ms @ [St_subheader ''Deteccion de Anomalias'']
              in case deteccion ar df variables [] of
                   Inl e \<Rightarrow> (ev2, Excepcion e)
                 | Inr (df', anomalias) \<Rightarrow>
                     (let ev3 = ev2 @
                            (if anomalias \<noteq> []
                             then [St_error ''Se detectaron anomalias en las lecturas'',
                                   St_table anomalias]
                             else [St_success ''No se detectaron anomalias'']) @
                            [St_subheader ''Prediccion de Tendencias Futuras (Regresion Lineal)'']
                      in case prediccion df' variables of
                           Inl e \<Rightarrow> (ev3, Excepcion e)
                         | Inr predicciones \<Rightarrow>
                             (ev3 @ [St_write ''**Predicciones para la siguiente lectura:**'']
                                  @ map (\<lambda>(var, pred). St_write_pred (capitalize var) pred) predicciones
                                  @ [St_markdown ''---'',
                                     St_caption pie],
                              Completo))))"

subsection \<open>Connection and query (lines 11 to 66)\<close>

text \<open>
  The surroundings of one run: the four configuration values (\<open>os.getenv\<close> gives
  \<open>None\<close> for a variable that is not set), what the client constructor and
  \<open>query_api()\<close> do for them (\<open>Some m\<close>: they raise an exception with message \<open>m\<close>), and
  what the store answers to a query text (\<open>Inl m\<close>: the call raises).
  The answer is one dataframe, which is what the client returns for a single result
  table; \<open>len(tables)\<close> is then its number of rows.
\<close>

record entorno =
  url :: "string option"
  token :: "string option"
  org :: "string option"
  bucket :: "string option"
  InfluxDBClient :: "string option \<Rightarrow> string option \<Rightarrow> string option \<Rightarrow> string option"
  query_data_frame :: "string \<Rightarrow> string + dataframe"

text \<open>How an f-string prints a configuration value.\<close>

fun str_opt :: "string option \<Rightarrow> string" where
  "str_opt None = ''None''"
| "str_opt (Some s) = s"

definition nl :: string where
  "nl = [CHR 0x0A]"

definition query_head :: string where
  \<open>query_head = nl @ ''from(bucket: "''\<close>

definition query_tail :: string where
  \<open>query_tail =
     ''")'' @ nl @
     ''  |> range(start: -7d)'' @ nl @
     ''  |> filter(fn: (r) => r["_measurement"] == "sensores")'' @ nl @
     ''  |> filter(fn: (r) => r["_field"] =~ /temperatura|humedad|vibracion|corriente|voltaje/)'' @ nl @
     ''  |> pivot(rowKey:["_time"], columnKey: ["_field"], valueColumn: "_value")'' @ nl @
     ''  |> keep(columns: ["_time", "temperatura", "humedad", "vibracion", "corriente", "voltaje"])'' @ nl\<close>

text \<open>Line 38 to 45.\<close>

definition query :: "string option \<Rightarrow> string" where
  "query b = query_head @ str_opt b @ query_tail"

subsection \<open>Reading the query text back\<close>

text \<open>
  Modelled from the Flux language, whose lexical syntax is not part of the repository: a
  string literal runs from a double quote to the next double quote that no backslash
  escapes. \<open>hasta_comilla\<close> starts behind the opening quote and gives the text of the
  literal and the text behind its closing quote. \<open>leer_bucket\<close> applies it behind the
  fixed head of the query: the first component is what the store reads as the bucket
  literal, the second is the program text that follows it.
\<close>

fun hasta_comilla :: "string \<Rightarrow> string \<times> string" where
  "hasta_comilla [] = ([], [])"
| "hasta_comilla [c] = (if c = CHR 0x22 then ([], []) else ([c], []))"
| "hasta_comilla (c # d # ds) =
     (if c = CHR 0x22 then ([], d # ds)
      else if c = CHR 0x5C then (case hasta_comilla ds of (l, r) \<Rightarrow> (c # d # l, r))
      else (case hasta_comilla (d # ds) of (l, r) \<Rightarrow> (c # l, r)))"

definition leer_bucket :: "string \<Rightarrow> string \<times> string" where
  "leer_bucket q = hasta_comilla (drop (length query_head) q)"


text \<open>Line 52 to 61: the sample data.\<close>

definition fechas :: "timestamp list" where
  "fechas = map (\<lambda>d. (2025, 10, d)) [1..<11]"

definition data :: "(string \<times> column) list" where
  "data =
     [(''_time'', Times fechas),
      (''temperatura'', Nums [28, 29, 30, 32, 33, 31, 30, 29, 28, 27]),
      (''humedad'', Nums [55, 58, 60, 62, 59, 61, 63, 65, 60, 58]),
      (''vibracion'', Nums [1.2, 1.3, 1.5, 1.7, 1.8, 1.6, 1.5, 1.4, 1.3, 1.2]),
      (''corriente'', Nums [5.5, 5.8, 6.0, 6.2, 6.5, 6.1, 5.9, 5.8, 5.6, 5.7]),
      (''voltaje'', Nums [230, 231, 229, 228, 232, 233, 230, 229, 231, 230])]"

definition datos_simulados :: dataframe where
  "datos_simulados = \<lparr>index_len = 10, cols = data\<rparr>"

record salida =
  eventos :: "evento list"
  consultas :: "string list"  \<comment> \<open>the query texts sent to the store\<close>
  fin :: terminacion

text \<open>
  The whole script. When the constructor raises, line 33 shows the error and the script
  goes on with \<open>query_api\<close> unbound: line 48 then raises NameError before any call, and
  the handler of line 64 catches it.
\<close>

definition main :: "aritmetica \<Rightarrow> entorno \<Rightarrow> salida" where
  "main ar w =
     (let ev0 = [St_title ''Monitoreo Predictivo con InfluxDB'',
                 St_write descripcion];
          conexion = InfluxDBClient w (url w) (token w) (org w);
          ev1 = ev0 @
                (case conexion of
                   None \<Rightarrow> [St_success ''Conexion exitosa a InfluxDB'']
                 | Some e \<Rightarrow> [St_error (''Error al conectar con InfluxDB: '' @ e)]);
          q = query (bucket w)
      in case conexion of
           Some _ \<Rightarrow>
             \<lparr>eventos = ev1 @ [St_error (''Error al consultar datos: '' @ str_exc (NameError ''query_api''))],
              consultas = [], fin = Detenido\<rparr>
         | None \<Rightarrow>
             (case query_data_frame w q of
                Inl e \<Rightarrow>
                  \<lparr>eventos = ev1 @ [St_error (''Error al consultar datos: '' @ e)],
                   consultas = [q], fin = Detenido\<rparr>
              | Inr tables \<Rightarrow>
                  (if index_len tables = 0
                   then (let (evs, t) = pagina ar datos_simulados
                         in \<lparr>eventos = ev1 @ [St_warning ''No se encontraron datos en InfluxDB. Se usaran datos simulados.''] @ evs,
                             consultas = [q], fin = t\<rparr>)
                   else (let (evs, t) = pagina ar tables
                         in \<lparr>eventos = ev1 @ evs, consultas = [q], fin = t\<rparr>))))"

text \<open>
  The flags of the exact arithmetic without the square root: what a run evaluates on
  concrete numbers (\<open>anomalo_eq_sq\<close> below shows that they are \<open>anomalo exacta\<close>).
\<close>

definition anomalo_sq :: "real list \<Rightarrow> bool list" where
  "anomalo_sq xs =
     (if length xs < 2 then map (\<lambda>v. False) xs
      else let m = sum_list xs / real (length xs);
               s2 = sum_list (map (\<lambda>x. (x - m)\<^sup>2) xs) / real (length xs - 1)
           in map (\<lambda>v. (v - m)\<^sup>2 > 4 * s2) xs)"

text \<open>
  An arithmetic is within \<open>d\<close> of the exact one on a column when both give numbers for
  the two bounds and these differ by \<open>d\<close> at most. A column has room \<open>d\<close> when every
  reading is at least \<open>d\<close> inside the exact bounds, written without the square root.
\<close>

definition cerca :: "real \<Rightarrow> aritmetica \<Rightarrow> real list \<Rightarrow> bool" where
  "cerca d ar xs =
     (case limites ar xs of
        (Finito a, Finito b) \<Rightarrow>
          (case limites exacta xs of
             (Finito a', Finito b') \<Rightarrow> \<bar>a - a'\<bar> \<le> d \<and> \<bar>b - b'\<bar> \<le> d
           | _ \<Rightarrow> False)
      | _ \<Rightarrow> False)"

definition holgura :: "real \<Rightarrow> real list \<Rightarrow> bool" where
  "holgura d xs =
     (2 \<le> length xs \<and>
      (let m = sum_list xs / real (length xs);
           s2 = sum_list (map (\<lambda>x. (x - m)\<^sup>2) xs) / real (length xs - 1)
       in list_all (\<lambda>v. (m - v + d \<le> 0 \<or> (m - v + d)\<^sup>2 \<le> 4 * s2) \<and>
                         (v - m + d \<le> 0 \<or> (v - m + d)\<^sup>2 \<le> 4 * s2)) xs))"

subsection \<open>Inputs to run the script on\<close>

text \<open>Nine readings with one outlier in \<open>temperatura\<close>.\<close>

definition df_ejemplo :: dataframe where
  "df_ejemplo =
     \<lparr>index_len = 9,
      cols = [(''Tiempo'', Times (map (\<lambda>d. (2025, 10, d)) [1..<10])),
              (''temperatura'', Nums [0, 0, 0, 0, 0, 0, 0, 0, 9]),
              (''humedad'', Nums [1, 2, 3, 4, 5, 6, 7, 8, 9]),
              (''vibracion'', Nums [1, 1, 1, 1, 1, 1, 1, 1, 1]),
              (''corriente'', Nums [5, 6, 5, 6, 5, 6, 5, 6, 5]),
              (''voltaje'', Nums [230, 231, 229, 228, 232, 233, 230, 229, 231])]\<rparr>"

text \<open>What the detection loop returns on \<open>df_ejemplo\<close> (\<open>deteccion_df_ejemplo\<close> below).\<close>

definition sin_flags :: "bool list" where
  "sin_flags = [False, False, False, False, False, False, False, False, False]"

definition df_ejemplo_det :: dataframe where
  "df_ejemplo_det =
     df_ejemplo\<lparr>cols := cols df_ejemplo @
       [(anomalo_name ''temperatura'',
           Flags [False, False, False, False, False, False, False, False, True]),
        (anomalo_name ''humedad'', Flags sin_flags),
        (anomalo_name ''vibracion'', Flags sin_flags),
        (anomalo_name ''corriente'', Flags sin_flags),
        (anomalo_name ''voltaje'', Flags sin_flags)]\<rparr>"

definition anomalias_ejemplo :: "anomalia list" where
  "anomalias_ejemplo =
     [\<lparr>Fecha = Time (2025, 10, 9), Variable = ''temperatura'', Valor = Num 9,
       Descripcion = ''Valor fuera de rango normal''\<rparr>]"

text \<open>The same readings with the other four variables changed; \<open>humedad\<close> is as above.\<close>

definition df_ejemplo2 :: dataframe where
  "df_ejemplo2 =
     \<lparr>index_len = 9,
      cols = [(''Tiempo'', Times (map (\<lambda>d. (2025, 11, d)) [1..<10])),
              (''temperatura'', Nums [3, 1, 4, 1, 5, 9, 2, 6, 5]),
              (''humedad'', Nums [1, 2, 3, 4, 5, 6, 7, 8, 9]),
              (''vibracion'', Nums [2, 2, 2, 2, 2, 2, 2, 2, 2]),
              (''corriente'', Nums [0, 0, 0, 0, 0, 0, 0, 0, 0]),
              (''voltaje'', Nums [110, 111, 112, 113, 114, 115, 116, 117, 118])]\<rparr>"

text \<open>What the detection loop returns on \<open>df_ejemplo2\<close>: no flag at all.\<close>

definition df_ejemplo2_det :: dataframe where
  "df_ejemplo2_det =
     df_ejemplo2\<lparr>cols := cols df_ejemplo2 @
       [(anomalo_name ''temperatura'', Flags sin_flags),
        (anomalo_name ''humedad'', Flags sin_flags),
        (anomalo_name ''vibracion'', Flags sin_flags),
        (anomalo_name ''corriente'', Flags sin_flags),
        (anomalo_name ''voltaje'', Flags sin_flags)]\<rparr>"

text \<open>
  What the script shows below the query for the sample data (\<open>pagina_datos_simulados\<close>
  below), and the flags it computes for them.
\<close>

definition sin_flags10 :: "bool list" where
  "sin_flags10 = [False, False, False, False, False, False, False, False, False, False]"

definition eventos_simulados :: "evento list" where
  "eventos_simulados =
     [St_subheader ''Datos obtenidos'',
      St_dataframe (rename ''_time'' ''Tiempo'' datos_simulados),
      St_subheader ''Estadisticas Generales'',
      St_metric ''Temperatura'' (Some (297 / 10)) (Some 27) (Some 33),
      St_metric ''Humedad'' (Some (601 / 10)) (Some 55) (Some 65),
      St_metric ''Vibracion'' (Some (29 / 20)) (Some (6 / 5)) (Some (9 / 5)),
      St_metric ''Corriente'' (Some (591 / 100)) (Some (11 / 2)) (Some (13 / 2)),
      St_metric ''Voltaje'' (Some (2303 / 10)) (Some 228) (Some 233),
      St_subheader ''Deteccion de Anomalias'',
      St_success ''No se detectaron anomalias'',
      St_subheader ''Prediccion de Tendencias Futuras (Regresion Lineal)'',
      St_write ''**Predicciones para la siguiente lectura:**'',
      St_write_pred ''Temperatura'' (4712 / 165),
      St_write_pred ''Humedad'' (10378 / 165),
      St_write_pred ''Vibracion'' (1154 / 825),
      St_write_pred ''Corriente'' (4814 / 825),
      St_write_pred ''Voltaje'' (7609 / 33),
      St_markdown ''---'',
      St_caption pie]"

text \<open>
  Surroundings for running the script: a configuration with every value set, a
  constructor that does \<open>conn\<close> and a store that answers \<open>resp\<close> to every query.
\<close>

definition mundo :: "string option \<Rightarrow> string + dataframe \<Rightarrow> entorno" where
  "mundo conn resp =
     \<lparr>url = Some ''http://localhost:8086'', token = Some ''secreto'', org = Some ''planta'',
      bucket = Some ''sensores'',
      InfluxDBClient = (\<lambda>_ _ _. conn),
      query_data_frame = (\<lambda>_. resp)\<rparr>"

subsection \<open>What the claims compare the script with\<close>

text \<open>
  The sum of squared residuals of a line (coefficient, intercept) over a column, the
  feature of row \<open>i\<close> being \<open>i\<close>. An ordinary-least-squares line is one that makes it
  least.
\<close>

definition sse :: "real list \<Rightarrow> real \<times> real \<Rightarrow> real" where
  "sse ys modelo = (\<Sum>i<length ys. (ys ! i - predict modelo (real i))\<^sup>2)"

section \<open>Properties of the model\<close>

subsection \<open>Reading and writing columns\<close>

lemma map_of_setcol:
  "map_of (cols (setcol df k c)) = (map_of (cols df))(k \<mapsto> c)"
  by (simp add: setcol_def AList.update_conv')

lemma index_len_setcol: "index_len (setcol df k c) = index_len df"
  by (simp add: setcol_def)

lemma getcol_setcol_other:
  "k \<noteq> v \<Longrightarrow> getcol (setcol df k c) v = getcol df v"
  by (simp add: getcol_def map_of_setcol)

lemma getcol_Nums: "getcol df v = Inr xs \<longleftrightarrow> map_of (cols df) v = Some (Nums xs)"
  by (auto simp: getcol_def split: option.splits column.splits)

lemma getcol_cong: "map_of (cols df1) v = map_of (cols df2) v \<Longrightarrow> getcol df1 v = getcol df2 v"
  by (simp add: getcol_def)

lemma row_get_setcol_other:
  "k \<noteq> name \<Longrightarrow> row_get (setcol df k c) i name = row_get df i name"
  by (simp add: row_get_def map_of_setcol)

lemma row_get_Nums:
  "getcol df v = Inr xs \<Longrightarrow> i < length xs \<Longrightarrow> row_get df i v = Inr (Num (xs ! i))"
  by (simp add: getcol_Nums row_get_def)

subsection \<open>The flags of one column\<close>

lemma anomalo_length: "length (anomalo ar xs) = length xs"
  by (simp add: anomalo_def Let_def)

lemma filas_anom_set: "i \<in> set (filas_anom flags) \<longleftrightarrow> i < length flags \<and> flags ! i"
  by (auto simp: filas_anom_def)

subsection \<open>The flags in exact arithmetic\<close>

text \<open>
  Without rounding, a row is flagged when its reading is more than two sample deviations
  from the mean, which needs no square root to decide. These are facts of \<open>exacta\<close>
  only: float64 rounding can move a bound past a reading that sits on it or next to it.
\<close>

lemma std_None: "length xs < 2 \<Longrightarrow> std xs = None"
  by (simp add: std_def var_muestral_def)

lemma anomalo_exacta_nth:
  assumes "i < length xs"
  shows "anomalo exacta xs ! i \<longleftrightarrow>
         (\<exists>m s. mean xs = Some m \<and> std xs = Some s \<and> \<bar>xs ! i - m\<bar> > 2 * s)"
proof (cases "length xs < 2")
  case True
  then have "std xs = None" by (rule std_None)
  with assms show ?thesis by (simp add: anomalo_def exacta_def Let_def)
next
  case False
  then have "xs \<noteq> []" by auto
  then obtain m where m: "mean xs = Some m" by (simp add: mean_def)
  from False obtain s where s: "std xs = Some s"
    by (simp add: std_def var_muestral_def Let_def)
  have "anomalo exacta xs ! i \<longleftrightarrow> xs ! i < m - 2 * s \<or> xs ! i > m + 2 * s"
    using assms by (simp add: anomalo_def exacta_def Let_def m s)
  also have "\<dots> \<longleftrightarrow> \<bar>xs ! i - m\<bar> > 2 * s" by linarith
  finally show ?thesis by (simp add: m s)
qed

lemma abs_gt_two_sqrt: "\<bar>d\<bar> > 2 * sqrt v \<longleftrightarrow> d\<^sup>2 > 4 * v" for d v :: real
proof -
  have "2 * sqrt v = sqrt (4 * v)" by (simp add: real_sqrt_mult)
  moreover have "\<bar>d\<bar> = sqrt (d\<^sup>2)" by simp
  ultimately show ?thesis by (simp only: real_sqrt_less_iff)
qed

lemma anomalo_eq_sq: "anomalo exacta xs = anomalo_sq xs"
proof (cases "length xs < 2")
  case True
  then show ?thesis
    by (simp add: anomalo_def exacta_def anomalo_sq_def std_def var_muestral_def Let_def)
next
  case False
  then have ne: "xs \<noteq> []" by auto
  have "(v < m - 2 * sqrt s2 \<or> v > m + 2 * sqrt s2) \<longleftrightarrow> (v - m)\<^sup>2 > 4 * s2" for v m s2 :: real
  proof -
    have "(v < m - 2 * sqrt s2 \<or> v > m + 2 * sqrt s2) \<longleftrightarrow> \<bar>v - m\<bar> > 2 * sqrt s2" by linarith
    then show ?thesis by (simp only: abs_gt_two_sqrt)
  qed
  then show ?thesis using False ne
    by (simp add: anomalo_def exacta_def anomalo_sq_def std_def var_muestral_def mean_def Let_def)
qed

lemma anomalo_exacta_const:
  assumes "\<forall>v\<in>set xs. v = c"
  shows "anomalo exacta xs = map (\<lambda>v. False) xs"
proof (cases "length xs < 2")
  case True
  then show ?thesis by (simp add: anomalo_eq_sq anomalo_sq_def)
next
  case False
  then have n: "0 < length xs" by (cases xs) simp_all
  from assms have rep: "xs = replicate (length xs) c"
    by (simp add: replicate_length_same)
  have m: "sum_list xs / real (length xs) = c"
    using n by (subst rep) (simp add: sum_list_replicate)
  have s2: "sum_list (map (\<lambda>x. (x - c)\<^sup>2) xs) = 0"
    using assms by (induction xs) auto
  have "map (\<lambda>v. 4 * 0 < (v - c)\<^sup>2) xs = map (\<lambda>v. False) xs"
    using assms by (intro map_cong) auto
  with False show ?thesis
    by (simp add: anomalo_eq_sq anomalo_sq_def Let_def m s2)
qed

subsection \<open>The flags in an arithmetic close to the exact one\<close>

lemma anomalo_limites:
  "anomalo ar xs = map (\<lambda>v. menor v (fst (limites ar xs)) \<or> mayor v (snd (limites ar xs))) xs"
  by (simp add: anomalo_def limites_def Let_def)

lemma limites_exacta:
  assumes "2 \<le> length xs"
  shows "limites exacta xs =
         (Finito (sum_list xs / real (length xs)
                  - 2 * sqrt (sum_list (map (\<lambda>x. (x - sum_list xs / real (length xs))\<^sup>2) xs)
                              / real (length xs - 1))),
          Finito (sum_list xs / real (length xs)
                  + 2 * sqrt (sum_list (map (\<lambda>x. (x - sum_list xs / real (length xs))\<^sup>2) xs)
                              / real (length xs - 1))))"
proof -
  from assms have "xs \<noteq> []" and "\<not> length xs < 2" by auto
  then show ?thesis
    by (simp add: limites_def exacta_def mean_def std_def var_muestral_def Let_def)
qed

lemma le_two_sqrt:
  fixes a s :: real
  assumes "0 \<le> s" and "a \<le> 0 \<or> a\<^sup>2 \<le> 4 * s"
  shows "a \<le> 2 * sqrt s"
proof (cases "a \<le> 0")
  case True
  moreover have "0 \<le> 2 * sqrt s" using assms(1) by simp
  ultimately show ?thesis by linarith
next
  case False
  with assms(2) have sq: "a\<^sup>2 \<le> 4 * s" by simp
  have "\<bar>a\<bar> = sqrt (a\<^sup>2)" by simp
  also have "\<dots> \<le> sqrt (4 * s)" using sq by (simp only: real_sqrt_le_iff)
  also have "\<dots> = 2 * sqrt s" by (simp add: real_sqrt_mult)
  finally show ?thesis by linarith
qed

lemma cerca_exacta: "2 \<le> length xs \<Longrightarrow> 0 \<le> d \<Longrightarrow> cerca d exacta xs"
  by (simp add: cerca_def limites_exacta)

lemma anomalo_cerca:
  assumes h: "holgura d xs" and c: "cerca d ar xs"
  shows "anomalo ar xs = map (\<lambda>v. False) xs"
proof -
  define m where "m = sum_list xs / real (length xs)"
  define s2 where "s2 = sum_list (map (\<lambda>x. (x - m)\<^sup>2) xs) / real (length xs - 1)"
  from h have n: "2 \<le> length xs" by (simp add: holgura_def)
  have s2_nonneg: "0 \<le> s2"
    unfolding s2_def by (intro divide_nonneg_nonneg sum_list_nonneg) auto
  have ex: "limites exacta xs = (Finito (m - 2 * sqrt s2), Finito (m + 2 * sqrt s2))"
    unfolding m_def s2_def by (rule limites_exacta[OF n])
  from c ex obtain a b where ab: "limites ar xs = (Finito a, Finito b)"
    and a: "\<bar>a - (m - 2 * sqrt s2)\<bar> \<le> d" and b: "\<bar>b - (m + 2 * sqrt s2)\<bar> \<le> d"
    by (auto simp: cerca_def split: prod.splits float64.splits)
  have "\<not> (v < a \<or> v > b)" if v: "v \<in> set xs" for v
  proof -
    from h v have "m - v + d \<le> 0 \<or> (m - v + d)\<^sup>2 \<le> 4 * s2"
      and "v - m + d \<le> 0 \<or> (v - m + d)\<^sup>2 \<le> 4 * s2"
      by (auto simp: holgura_def Let_def list_all_iff m_def s2_def)
    then have "m - v + d \<le> 2 * sqrt s2" and "v - m + d \<le> 2 * sqrt s2"
      using s2_nonneg by (auto intro: le_two_sqrt)
    with a b show ?thesis by linarith
  qed
  then have "map (\<lambda>v. menor v (Finito a) \<or> mayor v (Finito b)) xs = map (\<lambda>v. False) xs"
    by (intro map_cong) auto
  then show ?thesis by (simp add: anomalo_limites ab)
qed

subsection \<open>The detection loop\<close>

lemma anomalo_name_inj: "anomalo_name u = anomalo_name v \<longleftrightarrow> u = v"
  by (simp add: anomalo_name_def)

lemma Tiempo_not_flag: "anomalo_name u \<noteq> ''Tiempo''"
  by (simp add: anomalo_name_def)

lemma Tiempo_not_flags: "''Tiempo'' \<notin> anomalo_name ` set vars"
  using Tiempo_not_flag by fastforce

lemma variables_distinct: "distinct variables"
  by (simp add: variables_def)

lemma variables_flags_disjoint: "anomalo_name ` set variables \<inter> set variables = {}"
  by (simp add: variables_def anomalo_name_def)

lemma variables_not_flags: "v \<in> set variables \<Longrightarrow> v \<notin> anomalo_name ` set variables"
  using variables_flags_disjoint by auto

lemma deteccion_cols:
  "deteccion ar df vars acc = Inr (df', acc') \<Longrightarrow> name \<notin> anomalo_name ` set vars \<Longrightarrow>
   map_of (cols df') name = map_of (cols df) name"
proof (induction vars arbitrary: df acc)
  case Nil
  then show ?case by simp
next
  case (Cons v vs)
  then show ?case
    by (auto simp: Let_def map_of_setcol split: sum.splits)
qed

lemma deteccion_index_len:
  "deteccion ar df vars acc = Inr (df', acc') \<Longrightarrow> index_len df' = index_len df"
proof (induction vars arbitrary: df acc)
  case Nil
  then show ?case by simp
next
  case (Cons v vs)
  then show ?case
    by (auto simp: Let_def index_len_setcol split: sum.splits)
qed

lemma deteccion_names:
  "deteccion ar df vars acc = Inr (df', acc') \<Longrightarrow>
   fst ` set (cols df') = fst ` set (cols df) \<union> anomalo_name ` set vars"
proof (induction vars arbitrary: df acc)
  case Nil
  then show ?case by simp
next
  case (Cons u us)
  from Cons.prems(1) obtain ys nuevas1 where
    rest: "deteccion ar (setcol df (anomalo_name u) (Flags (anomalo ar ys))) us (acc @ nuevas1) = Inr (df', acc')"
    by (auto simp: Let_def split: sum.splits)
  from Cons.IH[OF rest] show ?case
    by (simp add: setcol_def AList.dom_update)
qed

lemma deteccion_getcol:
  "deteccion ar df vars acc = Inr (df', acc') \<Longrightarrow> anomalo_name ` set vars \<inter> set vars = {} \<Longrightarrow>
   v \<in> set vars \<Longrightarrow> \<exists>xs. getcol df v = Inr xs"
proof (induction vars arbitrary: df acc)
  case Nil
  then show ?case by simp
next
  case (Cons u us)
  from Cons.prems(1) obtain ys nuevas1 where
    ys: "getcol df u = Inr ys" and
    rest: "deteccion ar (setcol df (anomalo_name u) (Flags (anomalo ar ys))) us (acc @ nuevas1) = Inr (df', acc')"
    by (auto simp: Let_def split: sum.splits)
  show ?case
  proof (cases "v = u")
    case True
    with ys show ?thesis by blast
  next
    case False
    with Cons.prems(3) have vin: "v \<in> set us" by simp
    have disj: "anomalo_name ` set us \<inter> set us = {}" using Cons.prems(2) by auto
    have "anomalo_name u \<noteq> v" using Cons.prems(2,3) by auto
    with Cons.IH[OF rest disj vin] show ?thesis
      by (simp add: getcol_setcol_other)
  qed
qed

lemma deteccion_flag:
  "deteccion ar df vars acc = Inr (df', acc') \<Longrightarrow> v \<in> set vars \<Longrightarrow> distinct vars \<Longrightarrow>
   anomalo_name ` set vars \<inter> set vars = {} \<Longrightarrow> getcol df v = Inr xs \<Longrightarrow>
   map_of (cols df') (anomalo_name v) = Some (Flags (anomalo ar xs))"
proof (induction vars arbitrary: df acc)
  case Nil
  then show ?case by simp
next
  case (Cons u us)
  from Cons.prems(1) obtain ys nuevas where
    ys: "getcol df u = Inr ys" and
    rest: "deteccion ar (setcol df (anomalo_name u) (Flags (anomalo ar ys))) us (acc @ nuevas) = Inr (df', acc')"
    by (auto simp: Let_def split: sum.splits)
  let ?df1 = "setcol df (anomalo_name u) (Flags (anomalo ar ys))"
  show ?case
  proof (cases "v = u")
    case True
    with Cons.prems(3) have "anomalo_name v \<notin> anomalo_name ` set us"
      by (auto simp: anomalo_name_inj)
    then have "map_of (cols df') (anomalo_name v) = map_of (cols ?df1) (anomalo_name v)"
      using rest by (rule deteccion_cols[rotated])
    also have "\<dots> = Some (Flags (anomalo ar xs))"
      using True ys Cons.prems(5) by (simp add: map_of_setcol)
    finally show ?thesis .
  next
    case False
    with Cons.prems(2) have vin: "v \<in> set us" by simp
    have "anomalo_name u \<noteq> v" using Cons.prems(4) Cons.prems(2) by auto
    then have "getcol ?df1 v = Inr xs"
      using Cons.prems(5) by (simp add: getcol_setcol_other)
    moreover have "distinct us" using Cons.prems(3) by simp
    moreover have "anomalo_name ` set us \<inter> set us = {}" using Cons.prems(4) by auto
    ultimately show ?thesis using Cons.IH[OF rest vin] by blast
  qed
qed

lemma registrar_entries:
  "registrar df var is = Inr es \<Longrightarrow> a \<in> set es \<Longrightarrow>
   \<exists>i\<in>set is. row_get df i ''Tiempo'' = Inr (Fecha a) \<and> row_get df i var = Inr (Valor a)
              \<and> Variable a = var"
proof (induction "is" arbitrary: es)
  case Nil
  then show ?case by simp
next
  case (Cons i "is")
  then show ?case by (auto split: sum.splits)
qed

lemma deteccion_entries:
  "deteccion ar df vars acc = Inr (df', acc') \<Longrightarrow> anomalo_name ` set vars \<inter> set vars = {} \<Longrightarrow>
   \<exists>nuevas. acc' = acc @ nuevas \<and>
     (\<forall>a\<in>set nuevas. Variable a \<in> set vars \<and>
        (\<exists>xs i. getcol df (Variable a) = Inr xs \<and> i < length xs \<and> anomalo ar xs ! i \<and>
                row_get df i ''Tiempo'' = Inr (Fecha a) \<and> Valor a = Num (xs ! i)))"
proof (induction vars arbitrary: df acc)
  case Nil
  then show ?case by simp
next
  case (Cons u us)
  from Cons.prems(1) obtain ys nuevas1 where
    ys: "getcol df u = Inr ys" and
    reg: "registrar (setcol df (anomalo_name u) (Flags (anomalo ar ys))) u (filas_anom (anomalo ar ys)) = Inr nuevas1" and
    rest: "deteccion ar (setcol df (anomalo_name u) (Flags (anomalo ar ys))) us (acc @ nuevas1) = Inr (df', acc')"
    by (auto simp: Let_def split: sum.splits)
  let ?df1 = "setcol df (anomalo_name u) (Flags (anomalo ar ys))"
  have disj: "anomalo_name ` set us \<inter> set us = {}" using Cons.prems(2) by auto
  have nu: "anomalo_name u \<noteq> w" if "w \<in> set (u # us)" for w
    using Cons.prems(2) that by auto
  from Cons.IH[OF rest disj] obtain nuevas2 where
    acc': "acc' = (acc @ nuevas1) @ nuevas2" and
    n2: "\<forall>a\<in>set nuevas2. Variable a \<in> set us \<and>
        (\<exists>xs i. getcol ?df1 (Variable a) = Inr xs \<and> i < length xs \<and> anomalo ar xs ! i \<and>
                row_get ?df1 i ''Tiempo'' = Inr (Fecha a) \<and> Valor a = Num (xs ! i))"
    by blast
  have p1: "Variable a \<in> set (u # us) \<and>
        (\<exists>xs i. getcol df (Variable a) = Inr xs \<and> i < length xs \<and> anomalo ar xs ! i \<and>
                row_get df i ''Tiempo'' = Inr (Fecha a) \<and> Valor a = Num (xs ! i))"
    if a: "a \<in> set nuevas1" for a
  proof -
    from registrar_entries[OF reg a] obtain i where
      i: "i \<in> set (filas_anom (anomalo ar ys))" and
      t: "row_get ?df1 i ''Tiempo'' = Inr (Fecha a)" and
      v: "row_get ?df1 i u = Inr (Valor a)" and va: "Variable a = u"
      by blast
    from i have il: "i < length ys" and fl: "anomalo ar ys ! i"
      by (simp_all add: filas_anom_set anomalo_length)
    have "row_get df i ''Tiempo'' = Inr (Fecha a)"
      using t by (simp add: row_get_setcol_other Tiempo_not_flag)
    moreover have "row_get df i u = Inr (Valor a)"
      using v nu[of u] by (simp add: row_get_setcol_other)
    then have "Valor a = Num (ys ! i)"
      using row_get_Nums[OF ys il] by simp
    ultimately show ?thesis using va ys il fl by auto
  qed
  have p2: "Variable a \<in> set (u # us) \<and>
        (\<exists>xs i. getcol df (Variable a) = Inr xs \<and> i < length xs \<and> anomalo ar xs ! i \<and>
                row_get df i ''Tiempo'' = Inr (Fecha a) \<and> Valor a = Num (xs ! i))"
    if a: "a \<in> set nuevas2" for a
  proof -
    from n2 a obtain xs i where
      vin: "Variable a \<in> set us" and g: "getcol ?df1 (Variable a) = Inr xs" and
      il: "i < length xs" and fl: "anomalo ar xs ! i" and
      t: "row_get ?df1 i ''Tiempo'' = Inr (Fecha a)" and va: "Valor a = Num (xs ! i)"
      by blast
    have "getcol df (Variable a) = Inr xs"
      using g nu[of "Variable a"] vin by (simp add: getcol_setcol_other)
    moreover have "row_get df i ''Tiempo'' = Inr (Fecha a)"
      using t by (simp add: row_get_setcol_other Tiempo_not_flag)
    ultimately show ?thesis using vin il fl va by auto
  qed
  have "acc' = acc @ (nuevas1 @ nuevas2)" using acc' by simp
  moreover have "\<forall>a\<in>set (nuevas1 @ nuevas2). Variable a \<in> set (u # us) \<and>
        (\<exists>xs i. getcol df (Variable a) = Inr xs \<and> i < length xs \<and> anomalo ar xs ! i \<and>
                row_get df i ''Tiempo'' = Inr (Fecha a) \<and> Valor a = Num (xs ! i))"
    using p1 p2 by auto
  ultimately show ?case by blast
qed

subsection \<open>The least-squares line\<close>

lemma ols_normal_equations:
  fixes x y :: "nat \<Rightarrow> real"
  assumes n: "0 < n"
  defines "xm \<equiv> (\<Sum>i<n. x i) / real n"
  defines "ym \<equiv> (\<Sum>i<n. y i) / real n"
  defines "sxx \<equiv> (\<Sum>i<n. (x i - xm)\<^sup>2)"
  defines "sxy \<equiv> (\<Sum>i<n. (x i - xm) * (y i - ym))"
  defines "b \<equiv> (if sxx = 0 then 0 else sxy / sxx)"
  defines "a \<equiv> ym - b * xm"
  shows "(\<Sum>i<n. y i - (a + b * x i)) = 0"
    and "(\<Sum>i<n. (y i - (a + b * x i)) * x i) = 0"
proof -
  have sx: "(\<Sum>i<n. x i) = real n * xm" and sy: "(\<Sum>i<n. y i) = real n * ym"
    using n by (simp_all add: xm_def ym_def)
  have "(\<Sum>i<n. y i - (a + b * x i)) = (\<Sum>i<n. y i) - real n * a - b * (\<Sum>i<n. x i)"
    by (simp add: sum_subtractf sum.distrib sum_distrib_left)
  also have "\<dots> = 0"
    by (simp add: sx sy a_def algebra_simps)
  finally show r0: "(\<Sum>i<n. y i - (a + b * x i)) = 0" .
  have res: "y i - (a + b * x i) = (y i - ym) - b * (x i - xm)" for i
    by (simp add: a_def algebra_simps)
  have "(\<Sum>i<n. (y i - (a + b * x i)) * (x i - xm)) =
        (\<Sum>i<n. (x i - xm) * (y i - ym) - b * (x i - xm)\<^sup>2)"
    by (rule sum.cong) (simp_all add: res algebra_simps power2_eq_square)
  also have "\<dots> = sxy - b * sxx"
    by (simp add: sum_subtractf sum_distrib_left sxy_def sxx_def)
  also have "\<dots> = 0"
  proof (cases "sxx = 0")
    case False
    then show ?thesis by (simp add: b_def)
  next
    case True
    then have "\<forall>i\<in>{..<n}. (x i - xm)\<^sup>2 = 0"
      unfolding sxx_def by (subst (asm) sum_nonneg_eq_0_iff) auto
    then have "sxy = 0" unfolding sxy_def by (intro sum.neutral) auto
    with True show ?thesis by simp
  qed
  finally have r1: "(\<Sum>i<n. (y i - (a + b * x i)) * (x i - xm)) = 0" .
  have "(\<Sum>i<n. (y i - (a + b * x i)) * x i) =
        (\<Sum>i<n. (y i - (a + b * x i)) * (x i - xm)) + xm * (\<Sum>i<n. y i - (a + b * x i))"
    unfolding sum_distrib_left sum.distrib[symmetric]
    by (rule sum.cong) (simp_all add: algebra_simps)
  then show "(\<Sum>i<n. (y i - (a + b * x i)) * x i) = 0"
    by (simp add: r0 r1)
qed

lemma ols_decomp:
  fixes x y :: "nat \<Rightarrow> real"
  assumes r0: "(\<Sum>i<n. y i - (a + b * x i)) = 0"
      and r1: "(\<Sum>i<n. (y i - (a + b * x i)) * x i) = 0"
  shows "(\<Sum>i<n. (y i - (a' + b' * x i))\<^sup>2) =
         (\<Sum>i<n. (y i - (a + b * x i))\<^sup>2) + (\<Sum>i<n. ((a - a') + (b - b') * x i)\<^sup>2)"
proof -
  define r where "r i = y i - (a + b * x i)" for i
  define d where "d i = (a - a') + (b - b') * x i" for i
  have "(\<Sum>i<n. (y i - (a' + b' * x i))\<^sup>2) = (\<Sum>i<n. (r i)\<^sup>2 + 2 * (r i * d i) + (d i)\<^sup>2)"
    by (rule sum.cong) (simp_all add: r_def d_def power2_eq_square algebra_simps)
  also have "\<dots> = (\<Sum>i<n. (r i)\<^sup>2) + 2 * (\<Sum>i<n. r i * d i) + (\<Sum>i<n. (d i)\<^sup>2)"
    by (simp add: sum.distrib sum_distrib_left)
  also have "(\<Sum>i<n. r i * d i) = (a - a') * (\<Sum>i<n. r i) + (b - b') * (\<Sum>i<n. r i * x i)"
    unfolding sum_distrib_left sum.distrib[symmetric]
    by (rule sum.cong) (simp_all add: d_def algebra_simps)
  also have "\<dots> = 0" using r0 r1 by (simp add: r_def)
  finally show ?thesis by (simp add: r_def d_def)
qed

lemma ols_minimal:
  fixes x y :: "nat \<Rightarrow> real"
  assumes r0: "(\<Sum>i<n. y i - (a + b * x i)) = 0"
      and r1: "(\<Sum>i<n. (y i - (a + b * x i)) * x i) = 0"
  shows "(\<Sum>i<n. (y i - (a + b * x i))\<^sup>2) \<le> (\<Sum>i<n. (y i - (a' + b' * x i))\<^sup>2)"
proof -
  have "0 \<le> (\<Sum>i<n. ((a - a') + (b - b') * x i)\<^sup>2)" by (rule sum_nonneg) simp
  then show ?thesis unfolding ols_decomp[OF r0 r1, of a' b'] by simp
qed

lemma sum_list_nth_lessThan: "sum_list (map f xs) = (\<Sum>i<length xs. f (xs ! i))"
  by (simp add: sum_list_sum_nth atLeast0LessThan)

lemma fit_defined:
  "length X = length y \<Longrightarrow> X \<noteq> [] \<Longrightarrow> \<exists>modelo. fit X y = Inr modelo"
  by (simp add: fit_def Let_def)

lemma fit_normal_equations:
  assumes "fit X y = Inr (b, a)"
  shows "(\<Sum>i<length y. y ! i - (a + b * X ! i)) = 0"
    and "(\<Sum>i<length y. (y ! i - (a + b * X ! i)) * X ! i) = 0"
proof -
  let ?n = "length y"
  from assms have len: "length X = ?n" and ne: "0 < ?n"
    by (auto simp: fit_def split: if_splits)
  have sX: "sum_list X = (\<Sum>i<?n. X ! i)"
    using sum_list_nth_lessThan[of "\<lambda>x. x" X] by (simp add: len)
  have sY: "sum_list y = (\<Sum>i<?n. y ! i)"
    using sum_list_nth_lessThan[of "\<lambda>x. x" y] by simp
  have sxx: "sum_list (map (\<lambda>x. (x - m)\<^sup>2) X) = (\<Sum>i<?n. (X ! i - m)\<^sup>2)" for m
    by (simp add: sum_list_nth_lessThan len)
  have sxy: "sum_list (map (\<lambda>(x, v). (x - m) * (v - k)) (zip X y)) =
             (\<Sum>i<?n. (X ! i - m) * (y ! i - k))" for m k
    unfolding sum_list_nth_lessThan by (rule sum.cong) (simp_all add: len)
  from len ne have Xne: "X \<noteq> []" by auto
  define xm where "xm = (\<Sum>i<?n. X ! i) / real ?n"
  define ym where "ym = (\<Sum>i<?n. y ! i) / real ?n"
  define sxx' where "sxx' = (\<Sum>i<?n. (X ! i - xm)\<^sup>2)"
  define sxy' where "sxy' = (\<Sum>i<?n. (X ! i - xm) * (y ! i - ym))"
  have "fit X y = Inr (if sxx' = 0 then 0 else sxy' / sxx',
                       ym - (if sxx' = 0 then 0 else sxy' / sxx') * xm)"
    unfolding fit_def Let_def sX sY sxx sxy
    by (simp add: len Xne xm_def ym_def sxx'_def sxy'_def)
  with assms have
    b: "b = (if sxx' = 0 then 0 else sxy' / sxx')" and
    a: "a = ym - b * xm"
    by auto
  show "(\<Sum>i<?n. y ! i - (a + b * X ! i)) = 0"
    unfolding a b sxx'_def sxy'_def xm_def ym_def by (rule ols_normal_equations(1)[OF ne])
  show "(\<Sum>i<?n. (y ! i - (a + b * X ! i)) * X ! i) = 0"
    unfolding a b sxx'_def sxy'_def xm_def ym_def by (rule ols_normal_equations(2)[OF ne])
qed

lemma fit_least_squares:
  assumes "fit X y = Inr modelo"
  shows "(\<Sum>i<length y. (y ! i - predict modelo (X ! i))\<^sup>2)
         \<le> (\<Sum>i<length y. (y ! i - predict modelo' (X ! i))\<^sup>2)"
proof -
  obtain b a where m: "modelo = (b, a)" by (cases modelo)
  obtain b' a' where m': "modelo' = (b', a')" by (cases modelo')
  note ne = fit_normal_equations[OF assms[unfolded m]]
  show ?thesis
    unfolding m m' predict_def fst_conv snd_conv
    by (rule ols_minimal[OF ne])
qed

lemma sse_filas:
  "sse ys (b, a) = (\<Sum>i<length ys. (ys ! i - (a + b * map real [0..<length ys] ! i))\<^sup>2)"
  unfolding sse_def predict_def fst_conv snd_conv by (rule sum.cong) simp_all

lemma fit_rows_least_squares:
  assumes "fit (map real [0..<length ys]) ys = Inr modelo"
  shows "sse ys modelo \<le> sse ys modelo'"
proof -
  have "sse ys m = (\<Sum>i<length ys. (ys ! i - predict m (map real [0..<length ys] ! i))\<^sup>2)" for m
    unfolding sse_def by (rule sum.cong) simp_all
  then show ?thesis using fit_least_squares[OF assms] by simp
qed

lemma fit_rows_unique:
  assumes f: "fit (map real [0..<length ys]) ys = Inr modelo"
      and n: "2 \<le> length ys"
      and le: "sse ys modelo' \<le> sse ys modelo"
  shows "modelo' = modelo"
proof -
  let ?X = "map real [0..<length ys]"
  obtain b a where m: "modelo = (b, a)" by (cases modelo)
  obtain b' a' where m': "modelo' = (b', a')" by (cases modelo')
  note ne = fit_normal_equations[OF f[unfolded m]]
  have "sse ys (b', a') = sse ys (b, a) + (\<Sum>i<length ys. ((a - a') + (b - b') * ?X ! i)\<^sup>2)"
    unfolding sse_filas by (rule ols_decomp[OF ne])
  with le have "(\<Sum>i<length ys. ((a - a') + (b - b') * ?X ! i)\<^sup>2) \<le> 0"
    by (simp add: m m')
  moreover have "0 \<le> (\<Sum>i<length ys. ((a - a') + (b - b') * ?X ! i)\<^sup>2)"
    by (rule sum_nonneg) simp
  ultimately have "(\<Sum>i<length ys. ((a - a') + (b - b') * ?X ! i)\<^sup>2) = 0" by simp
  then have "\<forall>i\<in>{..<length ys}. ((a - a') + (b - b') * ?X ! i)\<^sup>2 = 0"
    by (subst (asm) sum_nonneg_eq_0_iff) auto
  then have z: "(a - a') + (b - b') * real i = 0" if "i < length ys" for i
    using that by auto
  from n have "0 < length ys" and "1 < length ys" by linarith+
  with z[of 0] z[of 1] have a: "a - a' = 0" and "b - b' = 0" by simp_all
  with a show ?thesis by (simp add: m m')
qed

subsection \<open>The prediction loop\<close>

lemma predecir_cong:
  "index_len df1 = index_len df2 \<Longrightarrow> getcol df1 v = getcol df2 v \<Longrightarrow>
   predecir df1 v = predecir df2 v"
  by (simp add: predecir_def split: sum.splits)

lemma prediccion_map_of:
  "prediccion df vars = Inr ps \<Longrightarrow> v \<in> set vars \<Longrightarrow>
   \<exists>p. predecir df v = Inr p \<and> map_of ps v = Some p"
proof (induction vars arbitrary: ps)
  case Nil
  then show ?case by simp
next
  case (Cons u us)
  then show ?case by (auto split: sum.splits)
qed

text \<open>
  Line 119 to 125 on a column with as many values as the dataframe has rows, at least
  one: the fit is the least-squares line over the row numbers (the only one when there
  are two rows or more), and the prediction is the value of that line at \<open>n + 1\<close>.
\<close>

lemma predecir_en_n_mas_1:
  assumes "getcol df var = Inr ys" and "length ys = index_len df" and "ys \<noteq> []"
  shows "\<exists>modelo. fit (map real [0..<length ys]) ys = Inr modelo \<and>
                  (\<forall>m'. sse ys modelo \<le> sse ys m') \<and>
                  (2 \<le> length ys \<longrightarrow> (\<forall>m'. sse ys m' \<le> sse ys modelo \<longrightarrow> m' = modelo)) \<and>
                  predecir df var = Inr (predict modelo (real (length ys) + 1))"
proof -
  from assms(3) obtain modelo where f: "fit (map real [0..<length ys]) ys = Inr modelo"
    using fit_defined[of "map real [0..<length ys]" ys] by auto
  have "predecir df var = Inr (predict modelo (real (length ys) + 1))"
    using f assms(1,2) by (simp add: predecir_def add.commute)
  with f fit_rows_least_squares[OF f] fit_rows_unique[OF f] show ?thesis by blast
qed

subsection \<open>The script on the example dataframes\<close>

lemma filas_9: "map real [0..<9] = [0, 1, 2, 3, 4, 5, 6, 7, 8]"
  by (simp add: upt_rec)

lemma filas_10: "map real [0..<10] = [0, 1, 2, 3, 4, 5, 6, 7, 8, 9]"
  by (simp add: upt_rec)

lemma anomalo_ej_temperatura:
  "anomalo exacta [0, 0, 0, 0, 0, 0, 0, 0, 9] = [False, False, False, False, False, False, False, False, True]"
  by (simp add: anomalo_eq_sq anomalo_sq_def Let_def)

lemma anomalo_ej_humedad:
  "anomalo exacta [1, 2, 3, 4, 5, 6, 7, 8, 9] = [False, False, False, False, False, False, False, False, False]"
  by (simp add: anomalo_eq_sq anomalo_sq_def Let_def)

lemma anomalo_ej_vibracion:
  "anomalo exacta [1, 1, 1, 1, 1, 1, 1, 1, 1] = [False, False, False, False, False, False, False, False, False]"
  by (simp add: anomalo_eq_sq anomalo_sq_def Let_def)

lemma anomalo_ej_corriente:
  "anomalo exacta [5, 6, 5, 6, 5, 6, 5, 6, 5] = [False, False, False, False, False, False, False, False, False]"
  by (simp add: anomalo_eq_sq anomalo_sq_def Let_def power2_eq_square)

lemma anomalo_ej_voltaje:
  "anomalo exacta [230, 231, 229, 228, 232, 233, 230, 229, 231] = [False, False, False, False, False, False, False, False, False]"
  by (simp add: anomalo_eq_sq anomalo_sq_def Let_def power2_eq_square)

lemmas anomalo_ej = anomalo_ej_temperatura anomalo_ej_humedad anomalo_ej_vibracion
  anomalo_ej_corriente anomalo_ej_voltaje

lemmas run_defs = getcol_def setcol_def row_get_def variables_def filas_anom_def Let_def
  anomalo_name_def upt_rec

lemma deteccion_df_ejemplo:
  "deteccion exacta df_ejemplo variables [] = Inr (df_ejemplo_det, anomalias_ejemplo)"
  by (simp add: run_defs df_ejemplo_def df_ejemplo_det_def anomalias_ejemplo_def sin_flags_def anomalo_ej)

lemma fit_ej_temperatura:
  "fit [0, 1, 2, 3, 4, 5, 6, 7, 8] [0, 0, 0, 0, 0, 0, 0, 0, 9] = Inr (3 / 5, - (7 / 5))"
  by (simp add: fit_def Let_def power2_eq_square)

lemma fit_ej_humedad:
  "fit [0, 1, 2, 3, 4, 5, 6, 7, 8] [1, 2, 3, 4, 5, 6, 7, 8, 9] = Inr (1, 1)"
  by (simp add: fit_def Let_def power2_eq_square)

lemma fit_ej_vibracion:
  "fit [0, 1, 2, 3, 4, 5, 6, 7, 8] [1, 1, 1, 1, 1, 1, 1, 1, 1] = Inr (0, 1)"
  by (simp add: fit_def Let_def power2_eq_square)

lemma fit_ej_corriente:
  "fit [0, 1, 2, 3, 4, 5, 6, 7, 8] [5, 6, 5, 6, 5, 6, 5, 6, 5] = Inr (0, 49 / 9)"
  by (simp add: fit_def Let_def power2_eq_square)

lemma fit_ej_voltaje:
  "fit [0, 1, 2, 3, 4, 5, 6, 7, 8] [230, 231, 229, 228, 232, 233, 230, 229, 231] = Inr (1 / 12, 230)"
  by (simp add: fit_def Let_def power2_eq_square)

lemmas fit_ej = fit_ej_temperatura fit_ej_humedad fit_ej_vibracion fit_ej_corriente fit_ej_voltaje

lemma prediccion_df_ejemplo:
  "prediccion df_ejemplo_det variables =
   Inr [(''temperatura'', 23 / 5), (''humedad'', 11), (''vibracion'', 1),
        (''corriente'', 49 / 9), (''voltaje'', 1385 / 6)]"
  by (simp add: variables_def predecir_def getcol_def df_ejemplo_det_def df_ejemplo_def
        anomalo_name_def filas_9 fit_ej predict_def)

lemma anomalo_ej2_temperatura: "anomalo exacta [3, 1, 4, 1, 5, 9, 2, 6, 5] = sin_flags"
  by (simp add: anomalo_eq_sq anomalo_sq_def Let_def power2_eq_square sin_flags_def)

lemma anomalo_ej2_vibracion: "anomalo exacta [2, 2, 2, 2, 2, 2, 2, 2, 2] = sin_flags"
  by (simp add: anomalo_eq_sq anomalo_sq_def Let_def sin_flags_def)

lemma anomalo_ej2_corriente: "anomalo exacta [0, 0, 0, 0, 0, 0, 0, 0, 0] = sin_flags"
  by (simp add: anomalo_eq_sq anomalo_sq_def Let_def sin_flags_def)

lemma anomalo_ej2_voltaje: "anomalo exacta [110, 111, 112, 113, 114, 115, 116, 117, 118] = sin_flags"
  by (simp add: anomalo_eq_sq anomalo_sq_def Let_def power2_eq_square sin_flags_def)

lemma filas_anom_sin_flags: "filas_anom sin_flags = []"
  by (simp add: filas_anom_def sin_flags_def upt_rec)

lemma deteccion_df_ejemplo2:
  "deteccion exacta df_ejemplo2 variables [] = Inr (df_ejemplo2_det, [])"
  by (simp add: getcol_def setcol_def variables_def anomalo_name_def df_ejemplo2_def
        df_ejemplo2_det_def anomalo_ej2_temperatura anomalo_ej2_vibracion anomalo_ej2_corriente
        anomalo_ej2_voltaje anomalo_ej_humedad[folded sin_flags_def] filas_anom_sin_flags)

lemma fit_ej2_temperatura:
  "fit [0, 1, 2, 3, 4, 5, 6, 7, 8] [3, 1, 4, 1, 5, 9, 2, 6, 5] = Inr (9 / 20, 11 / 5)"
  by (simp add: fit_def Let_def power2_eq_square)

lemma fit_ej2_vibracion:
  "fit [0, 1, 2, 3, 4, 5, 6, 7, 8] [2, 2, 2, 2, 2, 2, 2, 2, 2] = Inr (0, 2)"
  by (simp add: fit_def Let_def power2_eq_square)

lemma fit_ej2_corriente:
  "fit [0, 1, 2, 3, 4, 5, 6, 7, 8] [0, 0, 0, 0, 0, 0, 0, 0, 0] = Inr (0, 0)"
  by (simp add: fit_def Let_def power2_eq_square)

lemma fit_ej2_voltaje:
  "fit [0, 1, 2, 3, 4, 5, 6, 7, 8] [110, 111, 112, 113, 114, 115, 116, 117, 118] = Inr (1, 110)"
  by (simp add: fit_def Let_def power2_eq_square)

lemma prediccion_df_ejemplo2:
  "prediccion df_ejemplo2_det variables =
   Inr [(''temperatura'', 67 / 10), (''humedad'', 11), (''vibracion'', 2),
        (''corriente'', 0), (''voltaje'', 120)]"
  by (simp add: variables_def predecir_def getcol_def df_ejemplo2_det_def df_ejemplo2_def
        anomalo_name_def filas_9 fit_ej2_temperatura fit_ej_humedad fit_ej2_vibracion
        fit_ej2_corriente fit_ej2_voltaje predict_def)

subsection \<open>The script on the sample data\<close>

lemma filas_anom_sin_flags10: "filas_anom sin_flags10 = []"
  by (simp add: filas_anom_def sin_flags10_def upt_rec)

lemma anomalo_sim_temperatura: "anomalo exacta [28, 29, 30, 32, 33, 31, 30, 29, 28, 27] = sin_flags10"
  by (simp add: anomalo_eq_sq anomalo_sq_def Let_def power2_eq_square sin_flags10_def)

lemma anomalo_sim_humedad: "anomalo exacta [55, 58, 60, 62, 59, 61, 63, 65, 60, 58] = sin_flags10"
  by (simp add: anomalo_eq_sq anomalo_sq_def Let_def power2_eq_square sin_flags10_def)

lemma anomalo_sim_vibracion:
  "anomalo exacta [1.2, 1.3, 1.5, 1.7, 1.8, 1.6, 1.5, 1.4, 1.3, 1.2] = sin_flags10"
  by (simp add: anomalo_eq_sq anomalo_sq_def Let_def power2_eq_square sin_flags10_def)

lemma anomalo_sim_corriente:
  "anomalo exacta [5.5, 5.8, 6.0, 6.2, 6.5, 6.1, 5.9, 5.8, 5.6, 5.7] = sin_flags10"
  by (simp add: anomalo_eq_sq anomalo_sq_def Let_def power2_eq_square sin_flags10_def)

lemma anomalo_sim_voltaje: "anomalo exacta [230, 231, 229, 228, 232, 233, 230, 229, 231, 230] = sin_flags10"
  by (simp add: anomalo_eq_sq anomalo_sq_def Let_def power2_eq_square sin_flags10_def)

lemmas anomalo_sim = anomalo_sim_temperatura anomalo_sim_humedad
  anomalo_sim_vibracion[simplified] anomalo_sim_corriente[simplified] anomalo_sim_voltaje

lemma rename_datos_simulados:
  "rename ''_time'' ''Tiempo'' datos_simulados =
   \<lparr>index_len = 10, cols = (''Tiempo'', Times fechas) # tl data\<rparr>"
  by (simp add: rename_def datos_simulados_def data_def)

lemma deteccion_datos_simulados:
  "deteccion exacta (rename ''_time'' ''Tiempo'' datos_simulados) variables [] =
   Inr (\<lparr>index_len = 10,
         cols = (''Tiempo'', Times fechas) # tl data @
                map (\<lambda>v. (anomalo_name v, Flags sin_flags10)) variables\<rparr>, [])"
  by (simp add: rename_datos_simulados data_def getcol_def setcol_def variables_def
        anomalo_name_def anomalo_sim filas_anom_sin_flags10)

text \<open>
  The same outcome in every arithmetic that is within 1/200 of the exact one on the five
  columns of the sample data: the readings are further than that inside the bounds.
\<close>

lemma holgura_datos_simulados:
  "holgura (1 / 200) [28, 29, 30, 32, 33, 31, 30, 29, 28, 27]"
  "holgura (1 / 200) [55, 58, 60, 62, 59, 61, 63, 65, 60, 58]"
  "holgura (1 / 200) [1.2, 1.3, 1.5, 1.7, 1.8, 1.6, 1.5, 1.4, 1.3, 1.2]"
  "holgura (1 / 200) [5.5, 5.8, 6.0, 6.2, 6.5, 6.1, 5.9, 5.8, 5.6, 5.7]"
  "holgura (1 / 200) [230, 231, 229, 228, 232, 233, 230, 229, 231, 230]"
  by (simp_all add: holgura_def Let_def power2_eq_square)

lemma deteccion_datos_simulados_cerca:
  assumes "cerca (1 / 200) ar [28, 29, 30, 32, 33, 31, 30, 29, 28, 27]"
      and "cerca (1 / 200) ar [55, 58, 60, 62, 59, 61, 63, 65, 60, 58]"
      and "cerca (1 / 200) ar [1.2, 1.3, 1.5, 1.7, 1.8, 1.6, 1.5, 1.4, 1.3, 1.2]"
      and "cerca (1 / 200) ar [5.5, 5.8, 6.0, 6.2, 6.5, 6.1, 5.9, 5.8, 5.6, 5.7]"
      and "cerca (1 / 200) ar [230, 231, 229, 228, 232, 233, 230, 229, 231, 230]"
  shows "deteccion ar (rename ''_time'' ''Tiempo'' datos_simulados) variables [] =
         Inr (\<lparr>index_len = 10,
               cols = (''Tiempo'', Times fechas) # tl data @
                      map (\<lambda>v. (anomalo_name v, Flags sin_flags10)) variables\<rparr>, [])"
proof -
  note fl = anomalo_cerca[OF holgura_datos_simulados(1) assms(1)]
    anomalo_cerca[OF holgura_datos_simulados(2) assms(2)]
    anomalo_cerca[OF holgura_datos_simulados(3) assms(3)]
    anomalo_cerca[OF holgura_datos_simulados(4) assms(4)]
    anomalo_cerca[OF holgura_datos_simulados(5) assms(5)]
  show ?thesis
    by (simp add: rename_datos_simulados data_def getcol_def setcol_def variables_def
          anomalo_name_def fl[simplified] sin_flags10_def filas_anom_def upt_rec)
qed

lemma fit_sim_temperatura:
  "fit [0, 1, 2, 3, 4, 5, 6, 7, 8, 9] [28, 29, 30, 32, 33, 31, 30, 29, 28, 27] =
   Inr (- (29 / 165), 1677 / 55)"
  by (simp add: fit_def Let_def power2_eq_square)

lemma fit_sim_humedad:
  "fit [0, 1, 2, 3, 4, 5, 6, 7, 8, 9] [55, 58, 60, 62, 59, 61, 63, 65, 60, 58] =
   Inr (71 / 165, 3199 / 55)"
  by (simp add: fit_def Let_def power2_eq_square)

lemma fit_sim_vibracion:
  "fit [0, 1, 2, 3, 4, 5, 6, 7, 8, 9] [1.2, 1.3, 1.5, 1.7, 1.8, 1.6, 1.5, 1.4, 1.3, 1.2] =
   Inr (- (13 / 1650), 817 / 550)"
  by (simp add: fit_def Let_def power2_eq_square)

lemma fit_sim_corriente:
  "fit [0, 1, 2, 3, 4, 5, 6, 7, 8, 9] [5.5, 5.8, 6.0, 6.2, 6.5, 6.1, 5.9, 5.8, 5.6, 5.7] =
   Inr (- (19 / 1650), 3279 / 550)"
  by (simp add: fit_def Let_def power2_eq_square)

lemma fit_sim_voltaje:
  "fit [0, 1, 2, 3, 4, 5, 6, 7, 8, 9] [230, 231, 229, 228, 232, 233, 230, 229, 231, 230] =
   Inr (7 / 165, 12656 / 55)"
  by (simp add: fit_def Let_def power2_eq_square)

lemmas fit_sim = fit_sim_temperatura fit_sim_humedad fit_sim_vibracion[simplified]
  fit_sim_corriente[simplified] fit_sim_voltaje

lemma prediccion_datos_simulados:
  "prediccion \<lparr>index_len = 10,
         cols = (''Tiempo'', Times fechas) # tl data @
                map (\<lambda>v. (anomalo_name v, Flags sin_flags10)) variables\<rparr> variables =
   Inr [(''temperatura'', 4712 / 165), (''humedad'', 10378 / 165), (''vibracion'', 1154 / 825),
        (''corriente'', 4814 / 825), (''voltaje'', 7609 / 33)]"
  by (simp add: variables_def predecir_def getcol_def data_def anomalo_name_def filas_10
        fit_sim predict_def)

lemma capitalize_variables:
  "capitalize ''temperatura'' = ''Temperatura''"
  "capitalize ''humedad'' = ''Humedad''"
  "capitalize ''vibracion'' = ''Vibracion''"
  "capitalize ''corriente'' = ''Corriente''"
  "capitalize ''voltaje'' = ''Voltaje''"
  by code_simp+

lemma estadisticas_datos_simulados:
  "estadisticas (rename ''_time'' ''Tiempo'' datos_simulados) variables =
   ([St_metric ''Temperatura'' (Some (297 / 10)) (Some 27) (Some 33),
     St_metric ''Humedad'' (Some (601 / 10)) (Some 55) (Some 65),
     St_metric ''Vibracion'' (Some (29 / 20)) (Some (6 / 5)) (Some (9 / 5)),
     St_metric ''Corriente'' (Some (591 / 100)) (Some (11 / 2)) (Some (13 / 2)),
     St_metric ''Voltaje'' (Some (2303 / 10)) (Some 228) (Some 233)], None)"
  by (simp add: variables_def getcol_def rename_datos_simulados data_def
        mean_def minimo_def maximo_def capitalize_variables del: capitalize.simps)

lemma pagina_datos_simulados: "pagina exacta datos_simulados = (eventos_simulados, Completo)"
  unfolding pagina_def Let_def estadisticas_datos_simulados deteccion_datos_simulados
    prediccion_datos_simulados
  by (simp add: prediccion_datos_simulados eventos_simulados_def capitalize_variables
        del: capitalize.simps)

subsection \<open>The bucket literal of the query\<close>




text \<open>
  A bucket value that ends in a backslash escapes the closing quote of the template: the
  literal then runs on to the next quote of the query.
\<close>

lemma leer_bucket_barra:
  \<open>leer_bucket (query (Some [CHR ''x'', CHR 0x5C])) =
     ([CHR ''x'', CHR 0x5C, CHR 0x22] @ '')'' @ nl @
        ''  |> range(start: -7d)'' @ nl @
        ''  |> filter(fn: (r) => r['',
      ''_measurement"] == "sensores")'' @ nl @
      ''  |> filter(fn: (r) => r["_field"] =~ /temperatura|humedad|vibracion|corriente|voltaje/)'' @ nl @
      ''  |> pivot(rowKey:["_time"], columnKey: ["_field"], valueColumn: "_value")'' @ nl @
      ''  |> keep(columns: ["_time", "temperatura", "humedad", "vibracion", "corriente", "voltaje"])'' @ nl)\<close>
  by (simp add: leer_bucket_def query_def query_head_def query_tail_def nl_def)

subsection \<open>The script without a connection\<close>

lemma main_sin_conexion:
  assumes "InfluxDBClient w (url w) (token w) (org w) = Some e"
  shows "main ar w =
         \<lparr>eventos = [St_title ''Monitoreo Predictivo con InfluxDB'',
                     St_write descripcion,
                     St_error (''Error al conectar con InfluxDB: '' @ e),
                     St_error (''Error al consultar datos: '' @ str_exc (NameError ''query_api''))],
          consultas = [], fin = Detenido\<rparr>"
  using assms by (simp add: main_def Let_def)

section \<open>The claims of the specification\<close>

text \<open>
  C1. The prediction that the script shows is the value of the least-squares line at
  \<open>n + 1\<close>, not at \<open>n\<close>. On \<open>df_ejemplo\<close> the column \<open>humedad\<close> is 1, 2, ..., 9 over
  the rows 0, ..., 8: the fitted line is \<open>1 + x\<close> with no residual, its value at row
  index 9 is 10, and the script shows 11.
\<close>

theorem prediccion_un_paso_de_mas:
  "getcol df_ejemplo ''humedad'' = Inr [1, 2, 3, 4, 5, 6, 7, 8, 9] \<and>
   fit (map real [0..<index_len df_ejemplo]) [1, 2, 3, 4, 5, 6, 7, 8, 9] = Inr (1, 1) \<and>
   sse [1, 2, 3, 4, 5, 6, 7, 8, 9] (1, 1) = 0 \<and>
   predict (1, 1) (real (index_len df_ejemplo)) = 10 \<and>
   predecir df_ejemplo ''humedad'' = Inr 11"
proof -
  have n: "index_len df_ejemplo = 9" by (simp add: df_ejemplo_def)
  have g: "getcol df_ejemplo ''humedad'' = Inr [1, 2, 3, 4, 5, 6, 7, 8, 9]"
    by (simp add: getcol_def df_ejemplo_def)
  have f: "fit (map real [0..<index_len df_ejemplo]) [1, 2, 3, 4, 5, 6, 7, 8, 9] = Inr (1, 1)"
    by (simp add: n filas_9 fit_ej_humedad)
  have s: "sse [1, 2, 3, 4, 5, 6, 7, 8, 9] (1, 1) = 0"
    by (simp add: sse_def predict_def eval_nat_numeral)
  have p: "predict (1, 1) (real (index_len df_ejemplo)) = 10"
    by (simp add: n predict_def)
  have c: "predecir df_ejemplo ''humedad'' = Inr 11"
    using f by (simp add: predecir_def g n predict_def)
  show ?thesis using g f s p c by (intro conjI)
qed

text \<open>
  C2. When the constructor raises, the script shows the connection error, then the
  NameError of the unbound \<open>query_api\<close> as a query error, and stops: no query is sent and
  the sample data are not used.
\<close>

theorem conexion_fallida_se_detiene:
  "main ar (mundo (Some ''connection refused'') (Inr df_ejemplo)) =
     \<lparr>eventos = [St_title ''Monitoreo Predictivo con InfluxDB'',
                 St_write descripcion,
                 St_error ''Error al conectar con InfluxDB: connection refused'',
                 St_error (''Error al consultar datos: '' @ str_exc (NameError ''query_api''))],
      consultas = [], fin = Detenido\<rparr>"
  by (simp add: main_def mundo_def Let_def)

text \<open>
  C4. When the connection is made and the query returns a dataframe with no rows, the
  script warns and shows the page of the sample data, whatever else the returned
  dataframe holds: ten rows dated 2025-10-01 to 2025-10-10 with the fixed values of the
  five variables.
\<close>

theorem consulta_vacia_usa_datos_simulados:
  assumes "InfluxDBClient w (url w) (token w) (org w) = None"
      and "query_data_frame w (query (bucket w)) = Inr tables"
      and "index_len tables = 0"
  shows "main ar w =
           \<lparr>eventos = [St_title ''Monitoreo Predictivo con InfluxDB'',
                       St_write descripcion,
                       St_success ''Conexion exitosa a InfluxDB'',
                       St_warning ''No se encontraron datos en InfluxDB. Se usaran datos simulados.'']
                      @ fst (pagina ar datos_simulados),
            consultas = [query (bucket w)], fin = snd (pagina ar datos_simulados)\<rparr> \<and>
         pagina exacta datos_simulados = (eventos_simulados, Completo) \<and>
         datos_simulados =
           \<lparr>index_len = 10,
            cols = [(''_time'', Times [(2025, 10, 1), (2025, 10, 2), (2025, 10, 3), (2025, 10, 4),
                                       (2025, 10, 5), (2025, 10, 6), (2025, 10, 7), (2025, 10, 8),
                                       (2025, 10, 9), (2025, 10, 10)]),
                    (''temperatura'', Nums [28, 29, 30, 32, 33, 31, 30, 29, 28, 27]),
                    (''humedad'', Nums [55, 58, 60, 62, 59, 61, 63, 65, 60, 58]),
                    (''vibracion'', Nums [1.2, 1.3, 1.5, 1.7, 1.8, 1.6, 1.5, 1.4, 1.3, 1.2]),
                    (''corriente'', Nums [5.5, 5.8, 6.0, 6.2, 6.5, 6.1, 5.9, 5.8, 5.6, 5.7]),
                    (''voltaje'', Nums [230, 231, 229, 228, 232, 233, 230, 229, 231, 230])]\<rparr>"
proof -
  have "main ar w =
           \<lparr>eventos = [St_title ''Monitoreo Predictivo con InfluxDB'',
                       St_write descripcion,
                       St_success ''Conexion exitosa a InfluxDB'',
                       St_warning ''No se encontraron datos en InfluxDB. Se usaran datos simulados.'']
                      @ fst (pagina ar datos_simulados),
            consultas = [query (bucket w)], fin = snd (pagina ar datos_simulados)\<rparr>"
    using assms by (simp add: main_def Let_def split: prod.splits)
  moreover have "datos_simulados =
           \<lparr>index_len = 10,
            cols = [(''_time'', Times [(2025, 10, 1), (2025, 10, 2), (2025, 10, 3), (2025, 10, 4),
                                       (2025, 10, 5), (2025, 10, 6), (2025, 10, 7), (2025, 10, 8),
                                       (2025, 10, 9), (2025, 10, 10)]),
                    (''temperatura'', Nums [28, 29, 30, 32, 33, 31, 30, 29, 28, 27]),
                    (''humedad'', Nums [55, 58, 60, 62, 59, 61, 63, 65, 60, 58]),
                    (''vibracion'', Nums [1.2, 1.3, 1.5, 1.7, 1.8, 1.6, 1.5, 1.4, 1.3, 1.2]),
                    (''corriente'', Nums [5.5, 5.8, 6.0, 6.2, 6.5, 6.1, 5.9, 5.8, 5.6, 5.7]),
                    (''voltaje'', Nums [230, 231, 229, 228, 232, 233, 230, 229, 231, 230])]\<rparr>"
    by (simp add: datos_simulados_def data_def fechas_def upt_rec)
  ultimately show ?thesis using pagina_datos_simulados by (intro conjI)
qed

theorem consulta_vacia_usa_datos_simulados_witness:
  "main exacta (mundo None (Inr \<lparr>index_len = 0, cols = [(''_time'', Times [])]\<rparr>)) =
     \<lparr>eventos = [St_title ''Monitoreo Predictivo con InfluxDB'',
                 St_write descripcion,
                 St_success ''Conexion exitosa a InfluxDB'',
                 St_warning ''No se encontraron datos en InfluxDB. Se usaran datos simulados.'']
                @ eventos_simulados,
      consultas = [query (Some ''sensores'')], fin = Completo\<rparr>"
proof -
  let ?w = "mundo None (Inr \<lparr>index_len = 0, cols = [(''_time'', Times [])]\<rparr>)"
  have h1: "InfluxDBClient ?w (url ?w) (token ?w) (org ?w) = None"
    by (simp add: mundo_def)
  have h2: "query_data_frame ?w (query (bucket ?w)) = Inr \<lparr>index_len = 0, cols = [(''_time'', Times [])]\<rparr>"
    by (simp add: mundo_def)
  have h3: "index_len \<lparr>index_len = 0, cols = [(''_time'', Times [])]\<rparr> = 0" by simp
  have b: "bucket ?w = Some ''sensores''" by (simp add: mundo_def)
  from consulta_vacia_usa_datos_simulados[OF h1 h2 h3]
  have m: "main exacta ?w =
           \<lparr>eventos = [St_title ''Monitoreo Predictivo con InfluxDB'',
                       St_write descripcion,
                       St_success ''Conexion exitosa a InfluxDB'',
                       St_warning ''No se encontraron datos en InfluxDB. Se usaran datos simulados.'']
                      @ fst (pagina exacta datos_simulados),
            consultas = [query (bucket ?w)], fin = snd (pagina exacta datos_simulados)\<rparr>"
    and p: "pagina exacta datos_simulados = (eventos_simulados, Completo)"
    by blast+
  show ?thesis unfolding m p b by simp
qed

text \<open>
  C5. When the connection is made and the query call raises, the script shows the error
  and stops: the page holds the title, the introduction, the connection message and the
  error, and nothing of the dataframe, the statistics, the anomalies or the predictions.
\<close>

theorem error_de_consulta_detiene:
  assumes "InfluxDBClient w (url w) (token w) (org w) = None"
      and "query_data_frame w (query (bucket w)) = Inl e"
  shows "main ar w =
           \<lparr>eventos = [St_title ''Monitoreo Predictivo con InfluxDB'',
                       St_write descripcion,
                       St_success ''Conexion exitosa a InfluxDB'',
                       St_error (''Error al consultar datos: '' @ e)],
            consultas = [query (bucket w)], fin = Detenido\<rparr>"
  using assms by (simp add: main_def Let_def)

theorem error_de_consulta_detiene_witness:
  "main exacta (mundo None (Inl ''timeout'')) =
     \<lparr>eventos = [St_title ''Monitoreo Predictivo con InfluxDB'',
                 St_write descripcion,
                 St_success ''Conexion exitosa a InfluxDB'',
                 St_error ''Error al consultar datos: timeout''],
      consultas = [query (Some ''sensores'')], fin = Detenido\<rparr>"
proof -
  let ?w = "mundo None (Inl ''timeout'')"
  have h1: "InfluxDBClient ?w (url ?w) (token ?w) (org ?w) = None"
    by (simp add: mundo_def)
  have h2: "query_data_frame ?w (query (bucket ?w)) = Inl ''timeout''"
    by (simp add: mundo_def)
  have b: "bucket ?w = Some ''sensores''" by (simp add: mundo_def)
  show ?thesis
    using error_de_consulta_detiene[OF h1 h2] unfolding b by simp
qed




text \<open>
  C7. Two dataframes with the same number of rows and the same column \<open>v\<close>, whatever
  their other columns and whatever the float arithmetic: when the script gets through
  both, the flag column of \<open>v\<close> and the prediction for \<open>v\<close> are the same in the two runs.
\<close>

theorem independencia_por_variable:
  assumes "index_len df1 = index_len df2"
      and "map_of (cols df1) v = map_of (cols df2) v"
      and "v \<in> set variables"
      and "deteccion ar df1 variables [] = Inr (df1', a1)"
      and "deteccion ar df2 variables [] = Inr (df2', a2)"
      and "prediccion df1' variables = Inr p1"
      and "prediccion df2' variables = Inr p2"
  shows "\<exists>flags p. map_of (cols df1') (anomalo_name v) = Some (Flags flags) \<and>
                   map_of (cols df2') (anomalo_name v) = Some (Flags flags) \<and>
                   map_of p1 v = Some p \<and> map_of p2 v = Some p"
proof -
  from deteccion_getcol[OF assms(4) variables_flags_disjoint assms(3)]
  obtain xs where g1: "getcol df1 v = Inr xs" ..
  with assms(2) have g2: "getcol df2 v = Inr xs" by (simp add: getcol_def)
  note f1 = deteccion_flag[OF assms(4,3) variables_distinct variables_flags_disjoint g1]
  note f2 = deteccion_flag[OF assms(5,3) variables_distinct variables_flags_disjoint g2]
  have "getcol df1' v = getcol df1 v"
    by (rule getcol_cong, rule deteccion_cols[OF assms(4) variables_not_flags[OF assms(3)]])
  moreover have "getcol df2' v = getcol df2 v"
    by (rule getcol_cong, rule deteccion_cols[OF assms(5) variables_not_flags[OF assms(3)]])
  ultimately have g: "getcol df1' v = getcol df2' v" using g1 g2 by simp
  have n: "index_len df1' = index_len df2'"
    using deteccion_index_len[OF assms(4)] deteccion_index_len[OF assms(5)] assms(1) by simp
  have eq: "predecir df1' v = predecir df2' v" using n g by (rule predecir_cong)
  from prediccion_map_of[OF assms(6,3)] obtain p where
    p1: "predecir df1' v = Inr p" "map_of p1 v = Some p" by blast
  from prediccion_map_of[OF assms(7,3)] obtain p' where
    p2: "predecir df2' v = Inr p'" "map_of p2 v = Some p'" by blast
  from eq p1 p2 have "p' = p" by simp
  with f1 f2 p1 p2 show ?thesis by blast
qed

theorem independencia_por_variable_witness:
  "index_len df_ejemplo = index_len df_ejemplo2 \<and>
   map_of (cols df_ejemplo) ''humedad'' = map_of (cols df_ejemplo2) ''humedad'' \<and>
   map_of (cols df_ejemplo) ''temperatura'' \<noteq> map_of (cols df_ejemplo2) ''temperatura'' \<and>
   ''humedad'' \<in> set variables \<and>
   deteccion exacta df_ejemplo variables [] = Inr (df_ejemplo_det, anomalias_ejemplo) \<and>
   deteccion exacta df_ejemplo2 variables [] = Inr (df_ejemplo2_det, []) \<and>
   (\<exists>flags p. map_of (cols df_ejemplo_det) (anomalo_name ''humedad'') = Some (Flags flags) \<and>
              map_of (cols df_ejemplo2_det) (anomalo_name ''humedad'') = Some (Flags flags) \<and>
              map_of [(''temperatura'', 23 / 5), (''humedad'', 11), (''vibracion'', 1),
                      (''corriente'', 49 / 9), (''voltaje'', 1385 / 6 :: real)] ''humedad'' = Some p \<and>
              map_of [(''temperatura'', 67 / 10), (''humedad'', 11), (''vibracion'', 2),
                      (''corriente'', 0), (''voltaje'', 120 :: real)] ''humedad'' = Some p)"
proof -
  have h1: "index_len df_ejemplo = index_len df_ejemplo2"
    by (simp add: df_ejemplo_def df_ejemplo2_def)
  have h2: "map_of (cols df_ejemplo) ''humedad'' = map_of (cols df_ejemplo2) ''humedad''"
    by (simp add: df_ejemplo_def df_ejemplo2_def)
  have h2': "map_of (cols df_ejemplo) ''temperatura'' \<noteq> map_of (cols df_ejemplo2) ''temperatura''"
    by (simp add: df_ejemplo_def df_ejemplo2_def)
  have h3: "''humedad'' \<in> set variables" by (simp add: variables_def)
  note h4 = deteccion_df_ejemplo and h5 = deteccion_df_ejemplo2
  note h6 = prediccion_df_ejemplo and h7 = prediccion_df_ejemplo2
  show ?thesis
    using independencia_por_variable[OF h1 h2 h3 h4 h5 h6 h7] h1 h2 h2' h3 h4 h5
    by (intro conjI)
qed

text \<open>
  C8. On the sample data the detection loop flags no row of any of the five variables
  and reports nothing, and the page shows the success message after the heading of the
  anomaly section. The run is evaluated in the exact arithmetic; by
  \<open>deteccion_datos_simulados_cerca\<close> the flags are the same in every arithmetic whose
  bounds are within 1/200 of the exact ones.
\<close>

theorem datos_simulados_sin_anomalias:
  "\<exists>df'. deteccion exacta (rename ''_time'' ''Tiempo'' datos_simulados) variables [] = Inr (df', []) \<and>
         map (\<lambda>v. map_of (cols df') (anomalo_name v)) variables =
         map (\<lambda>v. Some (Flags [False, False, False, False, False, False, False, False, False, False]))
             variables \<and>
         (\<exists>antes despues. fst (pagina exacta datos_simulados) =
            antes @ [St_subheader ''Deteccion de Anomalias'',
                     St_success ''No se detectaron anomalias''] @ despues)"
proof -
  let ?df' = "\<lparr>index_len = 10,
         cols = (''Tiempo'', Times fechas) # tl data @
                map (\<lambda>v. (anomalo_name v, Flags sin_flags10)) variables\<rparr>"
  have 1: "deteccion exacta (rename ''_time'' ''Tiempo'' datos_simulados) variables [] = Inr (?df', [])"
    by (rule deteccion_datos_simulados)
  have 2: "map (\<lambda>v. map_of (cols ?df') (anomalo_name v)) variables =
         map (\<lambda>v. Some (Flags [False, False, False, False, False, False, False, False, False, False]))
             variables"
    by (simp add: variables_def data_def anomalo_name_def sin_flags10_def)
  have "fst (pagina exacta datos_simulados) =
          take 8 eventos_simulados @ [St_subheader ''Deteccion de Anomalias'',
                     St_success ''No se detectaron anomalias''] @ drop 10 eventos_simulados"
    by (simp add: pagina_datos_simulados eventos_simulados_def)
  then have 3: "\<exists>antes despues. fst (pagina exacta datos_simulados) =
            antes @ [St_subheader ''Deteccion de Anomalias'',
                     St_success ''No se detectaron anomalias''] @ despues"
    by blast
  from 1 2 3 show ?thesis by blast
qed

text \<open>
  C10. In every float arithmetic the detection loop leaves the number of rows, the \<open>Tiempo\<close> column and the five
  value columns as they were, and every other column that is not one of the five flag
  columns; the column names afterwards are the old ones and the five flag names, each
  flag column holding booleans; every entry of the report repeats the \<open>Tiempo\<close> cell and
  the value cell of one row of the dataframe that went in.
\<close>

theorem deteccion_solo_agrega_flags:
  assumes "deteccion ar df variables [] = Inr (df', anomalias)"
  shows "index_len df' = index_len df \<and>
         map_of (cols df') ''Tiempo'' = map_of (cols df) ''Tiempo'' \<and>
         (\<forall>v\<in>set variables. map_of (cols df') v = map_of (cols df) v) \<and>
         (\<forall>name. name \<notin> anomalo_name ` set variables \<longrightarrow>
                 map_of (cols df') name = map_of (cols df) name) \<and>
         fst ` set (cols df') = fst ` set (cols df) \<union> anomalo_name ` set variables \<and>
         (\<forall>v\<in>set variables. \<exists>flags. map_of (cols df') (anomalo_name v) = Some (Flags flags)) \<and>
         (\<forall>a\<in>set anomalias. \<exists>i. row_get df i ''Tiempo'' = Inr (Fecha a) \<and>
                                  row_get df i (Variable a) = Inr (Valor a))"
proof -
  have keep: "map_of (cols df') name = map_of (cols df) name"
    if "name \<notin> anomalo_name ` set variables" for name
    using assms that by (rule deteccion_cols)
  have flag: "\<exists>flags. map_of (cols df') (anomalo_name v) = Some (Flags flags)"
    if v: "v \<in> set variables" for v
  proof -
    from deteccion_getcol[OF assms variables_flags_disjoint v]
    obtain xs where "getcol df v = Inr xs" ..
    from deteccion_flag[OF assms v variables_distinct variables_flags_disjoint this]
    show ?thesis by blast
  qed
  have entry: "\<exists>i. row_get df i ''Tiempo'' = Inr (Fecha a) \<and>
                   row_get df i (Variable a) = Inr (Valor a)"
    if a: "a \<in> set anomalias" for a
  proof -
    from deteccion_entries[OF assms variables_flags_disjoint] a
    obtain xs i where g: "getcol df (Variable a) = Inr xs" and i: "i < length xs"
      and t: "row_get df i ''Tiempo'' = Inr (Fecha a)" and v: "Valor a = Num (xs ! i)"
      by auto
    from row_get_Nums[OF g i] v t show ?thesis by auto
  qed
  show ?thesis
    using deteccion_index_len[OF assms] keep[OF Tiempo_not_flags]
      keep[OF variables_not_flags] keep deteccion_names[OF assms] flag entry
    by (intro conjI ballI allI impI)
qed

theorem deteccion_solo_agrega_flags_witness:
  "deteccion exacta df_ejemplo variables [] = Inr (df_ejemplo_det, anomalias_ejemplo) \<and>
   index_len df_ejemplo_det = index_len df_ejemplo \<and>
   map_of (cols df_ejemplo_det) ''Tiempo'' = map_of (cols df_ejemplo) ''Tiempo'' \<and>
   map_of (cols df_ejemplo_det) ''temperatura'' = map_of (cols df_ejemplo) ''temperatura'' \<and>
   fst ` set (cols df_ejemplo_det) = fst ` set (cols df_ejemplo) \<union> anomalo_name ` set variables \<and>
   (\<exists>i. row_get df_ejemplo i ''Tiempo'' = Inr (Time (2025, 10, 9)) \<and>
        row_get df_ejemplo i ''temperatura'' = Inr (Num 9))"
proof -
  have h: "deteccion exacta df_ejemplo variables [] = Inr (df_ejemplo_det, anomalias_ejemplo)"
    by (rule deteccion_df_ejemplo)
  note c = deteccion_solo_agrega_flags[OF h]
  have v: "''temperatura'' \<in> set variables" by (simp add: variables_def)
  have a: "\<lparr>Fecha = Time (2025, 10, 9), Variable = ''temperatura'', Valor = Num 9,
            Descripcion = ''Valor fuera de rango normal''\<rparr> \<in> set anomalias_ejemplo"
    by (simp add: anomalias_ejemplo_def)
  from c v have c3: "map_of (cols df_ejemplo_det) ''temperatura'' = map_of (cols df_ejemplo) ''temperatura''"
    by blast
  from c a have c7: "\<exists>i. row_get df_ejemplo i ''Tiempo'' = Inr (Time (2025, 10, 9)) \<and>
        row_get df_ejemplo i ''temperatura'' = Inr (Num 9)"
    by fastforce
  show ?thesis using h c c3 c7 by (intro conjI) blast+
qed

end
